(* ===== verification/Prelude.thy ===== *)
theory Prelude
  imports Main "HOL-Library.Multiset"
begin

text \<open>
  Shared vocabulary of the development: the named theorem collections the component
  theories feed, and the decimal conversions between natural numbers and digit strings
  that JavaScript performs when a number meets a string (template literals such as
  \<open>`${i+1}`\<close> and \<open>`${percentage}%`\<close>, and the array index \<open>[0]\<close>, which is the
  property key \<open>"0"\<close>).
\<close>

named_theorems js_simps "evaluation rules of JavaScript value operations"
named_theorems ui_simps "evaluation rules of the page's view-model updates"

subsection \<open>Decimal digits\<close>

definition is_digit :: "char \<Rightarrow> bool" where
  "is_digit c \<longleftrightarrow> 48 \<le> (of_char c :: nat) \<and> (of_char c :: nat) \<le> 57"

definition digit_char :: "nat \<Rightarrow> char" where
  "digit_char d = ''0123456789'' ! d"

definition digit_val :: "char \<Rightarrow> nat" where
  "digit_val c = of_char c - 48"

text \<open>Number-to-string for a natural number: the digits of \<open>n\<close>, most significant first.\<close>

fun string_of_nat :: "nat \<Rightarrow> string" where
  "string_of_nat n = (if n < 10 then [digit_char n] else string_of_nat (n div 10) @ [digit_char (n mod 10)])"

declare string_of_nat.simps [simp del]

text \<open>String-to-number for a string of digits (the caller checks that it is one).\<close>

definition nat_of_digits :: "string \<Rightarrow> nat" where
  "nat_of_digits cs = foldl (\<lambda>acc c. 10 * acc + digit_val c) 0 cs"

text \<open>\<open>Array.prototype.join(sep)\<close> on strings.\<close>

fun join_with :: "string \<Rightarrow> string list \<Rightarrow> string" where
  "join_with sep [] = []"
| "join_with sep [x] = x"
| "join_with sep (x # y # ys) = x @ sep @ join_with sep (y # ys)"

text \<open>
  \<open>String.prototype.split\<close> with a one-character separator: the pieces between the
  separators, the empty string giving one empty piece.
\<close>

fun js_split :: "char \<Rightarrow> string \<Rightarrow> string list" where
  "js_split c [] = [[]]"
| "js_split c (x # xs) =
     (if x = c then [] # js_split c xs
      else (case js_split c xs of y # ys \<Rightarrow> (x # y) # ys | [] \<Rightarrow> [[x]]))"

text \<open>
  \<open>Array.prototype.map\<close> with a callback that may throw: the first exception, in
  index order, ends the map.
\<close>

fun map_throw :: "('a \<Rightarrow> 'e + 'b) \<Rightarrow> 'a list \<Rightarrow> 'e + 'b list" where
  "map_throw f [] = Inr []"
| "map_throw f (x # xs) =
     (case f x of Inl e \<Rightarrow> Inl e | Inr y \<Rightarrow> (case map_throw f xs of Inl e \<Rightarrow> Inl e | Inr ys \<Rightarrow> Inr (y # ys)))"

subsection \<open>Lemmas\<close>

lemma map_throw_Inr: "(\<And>x. x \<in> set xs \<Longrightarrow> f x = Inr (g x)) \<Longrightarrow> map_throw f xs = Inr (map g xs)"
  by (induction xs) auto

lemma map_throw_Inl: "map_throw f xs = Inl e \<Longrightarrow> \<exists>x \<in> set xs. f x = Inl e"
  by (induction xs) (auto split: sum.splits)

lemma map_throw_Inl_first:
  "\<forall>x \<in> set xs. \<exists>y. f x = Inr y \<Longrightarrow> f z = Inl e \<Longrightarrow> map_throw f (xs @ z # zs) = Inl e"
  by (induction xs) auto

lemma digit_cases: "d < (10::nat) \<Longrightarrow> d \<in> {0, 1, 2, 3, 4, 5, 6, 7, 8, 9}"
  by auto

lemma digit_val_digit_char [simp]: "d < 10 \<Longrightarrow> digit_val (digit_char d) = d"
  by (drule digit_cases) (auto simp: digit_val_def digit_char_def)

lemma is_digit_digit_char [simp]: "d < 10 \<Longrightarrow> is_digit (digit_char d)"
  by (drule digit_cases) (auto simp: is_digit_def digit_char_def)

lemma digit_char_inj: "d < 10 \<Longrightarrow> e < 10 \<Longrightarrow> digit_char d = digit_char e \<longleftrightarrow> d = e"
  by (metis digit_val_digit_char)

lemma string_of_nat_small [simp]: "n < 10 \<Longrightarrow> string_of_nat n = [digit_char n]"
  by (simp add: string_of_nat.simps)

lemma string_of_nat_large: "\<not> n < 10 \<Longrightarrow>
    string_of_nat n = string_of_nat (n div 10) @ [digit_char (n mod 10)]"
  by (simp add: string_of_nat.simps)

lemma string_of_nat_digits: "list_all is_digit (string_of_nat n)"
  by (induction n rule: string_of_nat.induct) (simp add: string_of_nat.simps)

lemma string_of_nat_not_Nil [simp]: "string_of_nat n \<noteq> []"
  by (simp add: string_of_nat.simps)

lemma nat_of_digits_snoc: "nat_of_digits (cs @ [c]) = 10 * nat_of_digits cs + digit_val c"
  by (simp add: nat_of_digits_def)

lemma nat_of_digits_string_of_nat [simp]: "nat_of_digits (string_of_nat n) = n"
proof (induction n rule: string_of_nat.induct)
  case (1 n)
  show ?case
  proof (cases "n < 10")
    case True
    then show ?thesis by (simp add: nat_of_digits_def)
  next
    case False
    with "1.IH" show ?thesis
      by (simp add: string_of_nat_large nat_of_digits_snoc)
  qed
qed

lemma string_of_nat_inj: "string_of_nat m = string_of_nat n \<longleftrightarrow> m = n"
  by (metis nat_of_digits_string_of_nat)

lemma string_of_nat_hd: "hd (string_of_nat n) = digit_char 0 \<Longrightarrow> n = 0"
proof (induction n rule: string_of_nat.induct)
  case (1 n)
  show ?case
  proof (cases "n < 10")
    case True
    with "1.prems" show ?thesis by (simp add: digit_char_inj)
  next
    case False
    then have "0 < n div 10" by simp
    with False "1.prems" "1.IH" show ?thesis
      by (simp add: string_of_nat_large)
  qed
qed

lemma js_split_not_Nil [simp]: "js_split c s \<noteq> []"
  by (induction s) (auto split: list.split)

lemma js_split_no_sep: "c \<notin> set s \<Longrightarrow> js_split c s = [s]"
  by (induction s) auto

lemma js_split_append_sep: "c \<notin> set x \<Longrightarrow> js_split c (x @ c # rest) = x # js_split c rest"
  by (induction x) (auto split: list.split)

text \<open>Splitting a join at its separator gives the pieces back when none contains it.\<close>

lemma js_split_join_with:
  "xs \<noteq> [] \<Longrightarrow> \<forall>x \<in> set xs. c \<notin> set x \<Longrightarrow> js_split c (join_with [c] xs) = xs"
  by (induction "[c]" xs rule: join_with.induct) (simp_all add: js_split_no_sep js_split_append_sep)

end
