(* ===== verification/JsValue.thy ===== *)
theory JsValue
  imports Prelude
begin

text \<open>
  The JavaScript values the page's code handles: what \<open>JSON.parse\<close> and
  \<open>response.json()\<close> produce (null, booleans, numbers, strings, arrays, objects), the
  value \<open>undefined\<close> (as \<open>None\<close> of a \<open>jsval option\<close>), truthiness as \<open>if\<close>, \<open>!\<close>,
  \<open>&&\<close> and \<open>||\<close> test it, property access with \<open>.\<close> (which throws a TypeError on
  null and undefined) and with \<open>?.\<close> (which short-circuits to undefined), and the
  ToString conversion that template literals and \<open>textContent\<close> apply.

  Numbers are kept as the decimal literal they were read from, \<open>JNum m e\<close> standing for
  \<open>m * 10 ^ e\<close>: the code never does arithmetic on a value from the service, only tests
  its truthiness and prints it. Strings are byte strings (UTF-8).
\<close>

datatype jsval =
    JNull
  | JBool bool
  | JNum int int
  | JStr string
  | JArr "jsval list"
  | JObj "(string \<times> jsval) list"

type_synonym jsopt = "jsval option"

text \<open>The errors a \<open>catch\<close> of the code can see, with their \<open>message\<close>.\<close>

datatype js_error = Error string | TypeError string | SyntaxError string

fun err_message :: "js_error \<Rightarrow> string" where
  "err_message (Error m) = m"
| "err_message (TypeError m) = m"
| "err_message (SyntaxError m) = m"

subsection \<open>Truthiness\<close>

fun truthy :: "jsval \<Rightarrow> bool" where
  "truthy JNull = False"
| "truthy (JBool b) = b"
| "truthy (JNum m e) = (m \<noteq> 0)"
| "truthy (JStr s) = (s \<noteq> [])"
| "truthy (JArr xs) = True"
| "truthy (JObj kvs) = True"

definition truthy_opt :: "jsopt \<Rightarrow> bool" where
  "truthy_opt v = (case v of None \<Rightarrow> False | Some x \<Rightarrow> truthy x)"

definition nullish :: "jsopt \<Rightarrow> bool" where
  "nullish v \<longleftrightarrow> v = None \<or> v = Some JNull"

text \<open>\<open>a || b\<close>: the left operand when it is truthy, the right one otherwise.\<close>

definition js_or :: "jsopt \<Rightarrow> jsopt \<Rightarrow> jsopt" where
  "js_or a b = (if truthy_opt a then a else b)"

subsection \<open>Property access\<close>

text \<open>
  A property key that is a canonical array index: the decimal digits of a natural number
  without leading zeros (\<open>xs[0]\<close> reads the key \<open>"0"\<close>).
\<close>

definition array_index :: "string \<Rightarrow> nat option" where
  "array_index k =
     (if k \<noteq> [] \<and> list_all is_digit k \<and> string_of_nat (nat_of_digits k) = k
      then Some (nat_of_digits k) else None)"

text \<open>
  The own property \<open>k\<close> of a value that is not null or undefined. An object parsed from
  JSON keeps the last of duplicate keys; arrays and strings have their elements and
  \<open>length\<close>; booleans and numbers have no own data properties. The names the code reads
  are none of the methods of the prototypes, so inherited properties do not arise.
\<close>

fun get_prop :: "jsval \<Rightarrow> string \<Rightarrow> jsopt" where
  "get_prop (JObj kvs) k = map_of (rev kvs) k"
| "get_prop (JArr xs) k =
     (if k = ''length'' then Some (JNum (int (length xs)) 0)
      else case array_index k of
        Some i \<Rightarrow> if i < length xs then Some (xs ! i) else None
      | None \<Rightarrow> None)"
| "get_prop (JStr s) k =
     (if k = ''length'' then Some (JNum (int (length s)) 0)
      else case array_index k of
        Some i \<Rightarrow> if i < length s then Some (JStr [s ! i]) else None
      | None \<Rightarrow> None)"
| "get_prop JNull k = None"
| "get_prop (JBool b) k = None"
| "get_prop (JNum m e) k = None"

definition quoted :: "string \<Rightarrow> string" where
  "quoted k = CHR 0x27 # k @ [CHR 0x27]"

text \<open>\<open>x.k\<close>: a TypeError when \<open>x\<close> is undefined or null (V8's message).\<close>

definition member :: "jsopt \<Rightarrow> string \<Rightarrow> js_error + jsopt" where
  "member x k = (case x of
     None \<Rightarrow> Inl (TypeError (''Cannot read properties of undefined (reading '' @ quoted k @ '')''))
   | Some JNull \<Rightarrow> Inl (TypeError (''Cannot read properties of null (reading '' @ quoted k @ '')''))
   | Some v \<Rightarrow> Inr (get_prop v k))"

text \<open>\<open>x?.k\<close>: undefined when \<open>x\<close> is undefined or null.\<close>

definition opt_member :: "jsopt \<Rightarrow> string \<Rightarrow> jsopt" where
  "opt_member x k = (case x of None \<Rightarrow> None | Some JNull \<Rightarrow> None | Some v \<Rightarrow> get_prop v k)"

subsection \<open>ToString\<close>

text \<open>
  Number::toString of the decimal \<open>m * 10 ^ e\<close>: the digits without trailing zeros,
  placed as ECMAScript places them (plain up to 21 integer digits, \<open>0.000001\<close> down to
  six leading zeros, exponent notation beyond). This is the shortest round-trip form of
  the double nearest to the literal whenever the literal has at most 15 significant
  digits and lies in the double range.
\<close>

function norm_dec :: "int \<Rightarrow> int \<Rightarrow> int \<times> int" where
  "norm_dec m e = (if m \<noteq> 0 \<and> m mod 10 = 0 then norm_dec (m div 10) (e + 1) else (m, e))"
  by pat_completeness auto
termination
  by (relation "measure (\<lambda>(m, e). nat \<bar>m\<bar>)") auto

declare norm_dec.simps [simp del]

definition exp_string :: "int \<Rightarrow> string" where
  "exp_string x = (if x < 0 then CHR ''-'' # string_of_nat (nat (- x)) else CHR ''+'' # string_of_nat (nat x))"

definition num_string :: "int \<Rightarrow> int \<Rightarrow> string" where
  "num_string m0 e0 =
     (let (m, e) = norm_dec m0 e0;
          ds = string_of_nat (nat \<bar>m\<bar>);
          k = int (length ds);
          n = k + e;
          body =
            (if k \<le> n \<and> n \<le> 21 then ds @ replicate (nat (n - k)) (CHR ''0'')
             else if 0 < n \<and> n \<le> 21 then take (nat n) ds @ CHR ''.'' # drop (nat n) ds
             else if -6 < n \<and> n \<le> 0 then ''0.'' @ replicate (nat (- n)) (CHR ''0'') @ ds
             else if k = 1 then ds @ CHR ''e'' # exp_string (n - 1)
             else take 1 ds @ CHR ''.'' # drop 1 ds @ CHR ''e'' # exp_string (n - 1))
      in if m = 0 then ''0'' else if m < 0 then CHR ''-'' # body else body)"

text \<open>
  ToString of a value; an array is joined with commas, its null elements printed
  empty; every plain object prints as \<open>[object Object]\<close>.
\<close>

fun js_to_string :: "jsval \<Rightarrow> string" where
  "js_to_string JNull = ''null''"
| "js_to_string (JBool b) = (if b then ''true'' else ''false'')"
| "js_to_string (JNum m e) = num_string m e"
| "js_to_string (JStr s) = s"
| "js_to_string (JArr xs) =
     join_with '','' (map (\<lambda>x. if x = JNull then [] else js_to_string x) xs)"
| "js_to_string (JObj kvs) = ''[object Object]''"

definition to_string_opt :: "jsopt \<Rightarrow> string" where
  "to_string_opt v = (case v of None \<Rightarrow> ''undefined'' | Some x \<Rightarrow> js_to_string x)"

subsection \<open>Lemmas\<close>

lemma array_index_string_of_nat [simp]: "array_index (string_of_nat n) = Some n"
  by (simp add: array_index_def string_of_nat_digits)

lemma array_index_0 [simp]: "array_index ''0'' = Some 0"
  by (simp add: array_index_def is_digit_def nat_of_digits_def digit_val_def digit_char_def)

lemma get_prop_index [simp]:
  "get_prop (JArr xs) (string_of_nat i) = (if i < length xs then Some (xs ! i) else None)"
proof -
  have "string_of_nat i \<noteq> ''length''"
    using string_of_nat_digits [of i] by (auto simp: is_digit_def)
  then show ?thesis by simp
qed

lemma get_prop_arr_0 [simp]:
  "get_prop (JArr xs) ''0'' = (case xs of [] \<Rightarrow> None | x # _ \<Rightarrow> Some x)"
  by (simp split: list.split)

lemma opt_member_None [simp]: "opt_member None k = None"
  by (simp add: opt_member_def)

lemma opt_member_JNull [simp]: "opt_member (Some JNull) k = None"
  by (simp add: opt_member_def)

lemma opt_member_obj [simp]: "opt_member (Some (JObj kvs)) k = map_of (rev kvs) k"
  by (simp add: opt_member_def)

lemma opt_member_arr [simp]: "opt_member (Some (JArr xs)) k = get_prop (JArr xs) k"
  by (simp add: opt_member_def)

lemma member_obj [simp]: "member (Some (JObj kvs)) k = Inr (map_of (rev kvs) k)"
  by (simp add: member_def)

lemma get_prop_Some_not_null: "get_prop v k = Some x \<Longrightarrow> v \<noteq> JNull"
  by auto

lemma member_Some [simp]: "v \<noteq> JNull \<Longrightarrow> member (Some v) k = Inr (get_prop v k)"
  by (cases v) (simp_all add: member_def)

lemma opt_member_Some [simp]: "v \<noteq> JNull \<Longrightarrow> opt_member (Some v) k = get_prop v k"
  by (cases v) (simp_all add: opt_member_def)

lemma truthy_not_null: "truthy v \<Longrightarrow> v \<noteq> JNull"
  by auto

lemma member_get [simp]: "get_prop v k = Some x \<Longrightarrow> member (Some v) k = Inr (Some x)"
  by (cases v) (simp_all add: member_def)

lemma opt_member_get [simp]: "get_prop v k = Some x \<Longrightarrow> opt_member (Some v) k = Some x"
  by (cases v) (simp_all add: opt_member_def)

lemma member_not_nullish: "\<not> nullish x \<Longrightarrow> member x k = Inr (opt_member x k)"
  by (auto simp: member_def opt_member_def nullish_def split: option.split jsval.split)

lemma truthy_not_nullish: "truthy_opt x \<Longrightarrow> \<not> nullish x"
  by (auto simp: truthy_opt_def nullish_def split: option.splits)

lemma truthy_opt_simps [simp, js_simps]:
  "truthy_opt None = False" "truthy_opt (Some v) = truthy v"
  by (simp_all add: truthy_opt_def)

lemma js_or_simps [js_simps]:
  "truthy_opt a \<Longrightarrow> js_or a b = a" "\<not> truthy_opt a \<Longrightarrow> js_or a b = b"
  by (simp_all add: js_or_def)

end
