(* ===== verification/Json.thy ===== *)
theory Json
  imports JsValue
begin

text \<open>
  \<open>JSON.parse\<close> and \<open>JSON.stringify\<close>, the two platform functions through which every
  byte between the page and the generative-language service passes: \<open>response.json()\<close>
  (index.js lines 181, 185, 501, 505) is \<open>JSON.parse\<close> of the body, line 510 parses the
  candidate's text, and the request body is \<open>JSON.stringify(payload)\<close> (lines 173, 493).
  They are ECMAScript builtins, not code of the repository; they are modelled from the
  JSON grammar (RFC 8259) so that the code's failure paths on malformed bodies are
  values of the model.

  \<open>json_parse\<close> is a lexer into tokens followed by a parser that keeps the open arrays
  and objects on an explicit stack, so that both recurse structurally on their input.
  Numbers are read into the normalised decimal \<open>JNum m e\<close> (no trailing zeros in
  \<open>m\<close>, and \<open>0\<close> as \<open>JNum 0 0\<close>), strings into UTF-8 bytes (a \<open>\uXXXX\<close> escape
  becomes the UTF-8 encoding of the code unit; surrogate pairs are not combined).
\<close>

datatype token =
    TLBrace | TRBrace | TLBrack | TRBrack | TColon | TComma
  | TStr string | TNum int int | TTrue | TFalse | TNull

subsection \<open>Lexer\<close>

definition is_ws :: "char \<Rightarrow> bool" where
  "is_ws c \<longleftrightarrow> c \<in> {CHR 0x20, CHR 0x09, CHR 0x0A, CHR 0x0D}"

definition escape_char :: "char \<Rightarrow> char option" where
  "escape_char d =
     (if d = CHR 0x22 then Some (CHR 0x22) else if d = CHR 0x5C then Some (CHR 0x5C)
      else if d = CHR ''/'' then Some (CHR ''/'') else if d = CHR ''b'' then Some (CHR 0x08)
      else if d = CHR ''f'' then Some (CHR 0x0C) else if d = CHR ''n'' then Some (CHR 0x0A)
      else if d = CHR ''r'' then Some (CHR 0x0D) else if d = CHR ''t'' then Some (CHR 0x09)
      else None)"

definition hex_val :: "char \<Rightarrow> nat option" where
  "hex_val c =
     (let n = (of_char c :: nat) in
      if 48 \<le> n \<and> n \<le> 57 then Some (n - 48)
      else if 97 \<le> n \<and> n \<le> 102 then Some (n - 87)
      else if 65 \<le> n \<and> n \<le> 70 then Some (n - 55) else None)"

definition hex4 :: "string \<Rightarrow> nat option" where
  "hex4 ds =
     (if length ds = 4 \<and> list_all (\<lambda>c. hex_val c \<noteq> None) ds
      then Some (foldl (\<lambda>acc c. 16 * acc + the (hex_val c)) 0 ds) else None)"

definition utf8 :: "nat \<Rightarrow> string" where
  "utf8 cp =
     (if cp < 0x80 then [char_of cp]
      else if cp < 0x800 then [char_of (0xC0 + cp div 64), char_of (0x80 + cp mod 64)]
      else [char_of (0xE0 + cp div 4096), char_of (0x80 + (cp div 64) mod 64),
            char_of (0x80 + cp mod 64)])"

text \<open>
  The body of a string literal after its opening quote: the decoded bytes (accumulated
  reversed) and the input after the closing quote. A raw control character, a bad
  escape or a missing closing quote is a SyntaxError.
\<close>

function lex_str :: "string \<Rightarrow> string \<Rightarrow> (string \<times> string) option" where
  "lex_str acc [] = None"
| "lex_str acc (c # cs) =
     (if c = CHR 0x22 then Some (rev acc, cs)
      else if c = CHR 0x5C then
        (case cs of
          [] \<Rightarrow> None
        | d # ds \<Rightarrow>
            (case escape_char d of
              Some e \<Rightarrow> lex_str (e # acc) ds
            | None \<Rightarrow>
                if d = CHR ''u'' then
                  (case hex4 (take 4 ds) of
                    Some cp \<Rightarrow> lex_str (rev (utf8 cp) @ acc) (drop 4 ds)
                  | None \<Rightarrow> None)
                else None))
      else if (of_char c :: nat) < 32 then None
      else lex_str (c # acc) cs)"
  by pat_completeness auto
termination
  by (relation "measure (\<lambda>(acc, cs). length cs)") auto

definition digits_of :: "string \<Rightarrow> string \<times> string" where
  "digits_of cs = (takeWhile is_digit cs, dropWhile is_digit cs)"

definition mk_num :: "int \<Rightarrow> int \<Rightarrow> int \<times> int" where
  "mk_num m e = (if m = 0 then (0, 0) else norm_dec m e)"

text \<open>
  A number literal \<open>-?(0|[1-9][0-9]*)(.[0-9]+)?([eE][+-]?[0-9]+)?\<close> at the start of
  the input, read in three stages, each returning the rest of the input.
\<close>

definition lex_int_part :: "string \<Rightarrow> (string \<times> string) option" where
  "lex_int_part cs = (case cs of
     [] \<Rightarrow> None
   | c # r \<Rightarrow> if c = CHR ''0'' then Some (''0'', r) else if is_digit c then Some (digits_of cs) else None)"

definition lex_frac :: "string \<Rightarrow> (string \<times> string) option" where
  "lex_frac cs = (case cs of
     c # r \<Rightarrow> if c = CHR ''.'' then (case digits_of r of ([], _) \<Rightarrow> None | p \<Rightarrow> Some p) else Some ([], cs)
   | [] \<Rightarrow> Some ([], []))"

definition lex_exp :: "string \<Rightarrow> (int \<times> string) option" where
  "lex_exp cs = (case cs of
     c # r \<Rightarrow>
       if c = CHR ''e'' \<or> c = CHR ''E'' then
         (let (sg, r') = (case r of
                d # r'' \<Rightarrow> if d = CHR ''-'' then (-1, r'') else if d = CHR ''+'' then (1, r'') else (1, r)
              | [] \<Rightarrow> (1, r))
          in case digits_of r' of ([], _) \<Rightarrow> None | (ds, r'') \<Rightarrow> Some (sg * int (nat_of_digits ds), r''))
       else Some (0, cs)
   | [] \<Rightarrow> Some (0, []))"

definition num_sign :: "string \<Rightarrow> bool \<times> string" where
  "num_sign cs = (case cs of c # r \<Rightarrow> if c = CHR ''-'' then (True, r) else (False, cs) | [] \<Rightarrow> (False, []))"

definition lex_num :: "string \<Rightarrow> (token \<times> string) option" where
  "lex_num cs0 =
     (let (neg, cs1) = num_sign cs0
      in case lex_int_part cs1 of None \<Rightarrow> None | Some (ids, r1) \<Rightarrow>
         case lex_frac r1 of None \<Rightarrow> None | Some (fds, r2) \<Rightarrow>
         case lex_exp r2 of None \<Rightarrow> None | Some (x, r3) \<Rightarrow>
           (let mag = int (nat_of_digits (ids @ fds))
            in Some (case mk_num (if neg then - mag else mag) (x - int (length fds)) of (m, e) \<Rightarrow> TNum m e, r3)))"

lemma lex_str_shorter: "lex_str acc cs = Some (s, rest) \<Longrightarrow> length rest < length cs"
proof (induction acc cs rule: lex_str.induct)
  case (1 acc)
  then show ?case by simp
next
  case (2 acc c cs)
  show ?case
  proof (cases "c = CHR 0x22 \<or> c \<noteq> CHR 0x5C")
    case True
    with "2.prems" "2.IH"(3) show ?thesis
      by (auto split: if_splits)
  next
    case False
    then have q: "c \<noteq> CHR 0x22" and b: "c = CHR 0x5C" by auto
    with "2.prems" obtain d ds where cs: "cs = d # ds"
      by (cases cs) auto
    show ?thesis
    proof (cases "escape_char d")
      case (Some e)
      with "2.prems" q b cs have "lex_str (e # acc) ds = Some (s, rest)"
        by simp
      with "2.IH"(2) [OF q b cs Some] cs show ?thesis by simp
    next
      case None
      with "2.prems" q b cs obtain cp where u: "d = CHR ''u''" and h: "hex4 (take 4 ds) = Some cp"
          and r: "lex_str (rev (utf8 cp) @ acc) (drop 4 ds) = Some (s, rest)"
        by (auto split: if_splits option.splits)
      from "2.IH"(1) [OF q b cs None u h r] cs show ?thesis by simp
    qed
  qed
qed

lemma digits_of_length: "digits_of cs = (a, b) \<Longrightarrow> length b \<le> length cs"
  by (auto simp: digits_of_def length_dropWhile_le)

lemma digits_of_append: "digits_of cs = (a, b) \<Longrightarrow> cs = a @ b"
  by (auto simp: digits_of_def)

lemma digits_of_shorter: "digits_of cs = (a, b) \<Longrightarrow> a \<noteq> [] \<Longrightarrow> length b < length cs"
  using digits_of_append by fastforce

lemma lex_int_part_shorter: "lex_int_part cs = Some (a, r) \<Longrightarrow> length r < length cs"
  by (auto simp: lex_int_part_def digits_of_def le_imp_less_Suc length_dropWhile_le
      split: list.splits if_splits)

lemma lex_frac_shorter: "lex_frac cs = Some (a, r) \<Longrightarrow> length r \<le> length cs"
  by (auto simp: lex_frac_def split: list.splits if_splits prod.splits dest!: digits_of_length)

lemma lex_exp_shorter: "lex_exp cs = Some (a, r) \<Longrightarrow> length r \<le> length cs"
  by (auto simp: lex_exp_def Let_def split: list.splits if_splits prod.splits dest!: digits_of_length)

lemma num_sign_length: "num_sign cs = (neg, cs1) \<Longrightarrow> length cs1 \<le> length cs"
  by (auto simp: num_sign_def split: list.splits if_splits)

lemma lex_num_shorter:
  assumes ok: "lex_num cs = Some (t, r)"
  shows "length r < length cs"
proof -
  obtain neg cs1 where sign: "num_sign cs = (neg, cs1)"
    by fastforce
  from ok sign obtain ids r1 fds r2 x where
    i: "lex_int_part cs1 = Some (ids, r1)" and f: "lex_frac r1 = Some (fds, r2)"
    and e: "lex_exp r2 = Some (x, r)"
    by (auto simp: lex_num_def Let_def split: option.splits)
  have "length r < length cs1"
    using lex_int_part_shorter [OF i] lex_frac_shorter [OF f] lex_exp_shorter [OF e] by simp
  with num_sign_length [OF sign] show ?thesis by simp
qed

text \<open>The lexer proper: whitespace between tokens is skipped.\<close>

function lex :: "string \<Rightarrow> token list option" where
  "lex [] = Some []"
| "lex (c # cs) =
     (if is_ws c then lex cs
      else if c = CHR ''{'' then map_option (Cons TLBrace) (lex cs)
      else if c = CHR ''}'' then map_option (Cons TRBrace) (lex cs)
      else if c = CHR ''['' then map_option (Cons TLBrack) (lex cs)
      else if c = CHR '']'' then map_option (Cons TRBrack) (lex cs)
      else if c = CHR '':'' then map_option (Cons TColon) (lex cs)
      else if c = CHR '','' then map_option (Cons TComma) (lex cs)
      else if c = CHR 0x22 then
        (case lex_str [] cs of None \<Rightarrow> None | Some (s, r) \<Rightarrow> map_option (Cons (TStr s)) (lex r))
      else if c = CHR ''-'' \<or> is_digit c then
        (case lex_num (c # cs) of None \<Rightarrow> None | Some (t, r) \<Rightarrow> map_option (Cons t) (lex r))
      else if c = CHR ''t'' \<and> take 3 cs = ''rue'' then map_option (Cons TTrue) (lex (drop 3 cs))
      else if c = CHR ''f'' \<and> take 4 cs = ''alse'' then map_option (Cons TFalse) (lex (drop 4 cs))
      else if c = CHR ''n'' \<and> take 3 cs = ''ull'' then map_option (Cons TNull) (lex (drop 3 cs))
      else None)"
  by pat_completeness auto
termination
proof (relation "measure length")
  fix c cs p s r
  assume "lex_str [] cs = Some p" "(s, r) = p"
  then show "(r, c # cs) \<in> measure length"
    by (auto dest: lex_str_shorter)
next
  fix c cs p t r
  assume "lex_num (c # cs) = Some p" "(t, r) = p"
  then show "(r, c # cs) \<in> measure length"
    by (auto dest: lex_num_shorter)
qed (simp_all add: less_Suc_eq_le)

subsection \<open>Parser\<close>

text \<open>
  The open containers, innermost first: an array with its elements so far (reversed), or
  an object with its members so far (reversed) and the key whose value is being read.
\<close>

datatype frame = FArr "jsval list" | FObj "(string \<times> jsval) list" string

text \<open>What the parser expects next.\<close>

datatype pstate =
    PValue
  | PValueOrEnd
  | PKeyOrEnd
  | PKey "(string \<times> jsval) list"
  | PColon "(string \<times> jsval) list" string
  | PDone jsval

fun scalar_tok :: "token \<Rightarrow> jsval option" where
  "scalar_tok (TStr s) = Some (JStr s)"
| "scalar_tok (TNum m e) = Some (JNum m e)"
| "scalar_tok TTrue = Some (JBool True)"
| "scalar_tok TFalse = Some (JBool False)"
| "scalar_tok TNull = Some JNull"
| "scalar_tok t = None"

fun parse_toks :: "frame list \<Rightarrow> pstate \<Rightarrow> token list \<Rightarrow> jsval option" where
  "parse_toks [] (PDone v) [] = Some v"
| "parse_toks stk st [] = None"
| "parse_toks stk (PDone v) (t # ts) =
     (case (stk, t) of
       (FArr es # stk', TComma) \<Rightarrow> parse_toks (FArr (v # es) # stk') PValue ts
     | (FArr es # stk', TRBrack) \<Rightarrow> parse_toks stk' (PDone (JArr (rev (v # es)))) ts
     | (FObj ms k # stk', TComma) \<Rightarrow> parse_toks stk' (PKey ((k, v) # ms)) ts
     | (FObj ms k # stk', TRBrace) \<Rightarrow> parse_toks stk' (PDone (JObj (rev ((k, v) # ms)))) ts
     | _ \<Rightarrow> None)"
| "parse_toks stk PKeyOrEnd (t # ts) =
     (case t of
       TRBrace \<Rightarrow> parse_toks stk (PDone (JObj [])) ts
     | TStr k \<Rightarrow> parse_toks stk (PColon [] k) ts
     | _ \<Rightarrow> None)"
| "parse_toks stk (PKey ms) (t # ts) =
     (case t of TStr k \<Rightarrow> parse_toks stk (PColon ms k) ts | _ \<Rightarrow> None)"
| "parse_toks stk (PColon ms k) (t # ts) =
     (case t of TColon \<Rightarrow> parse_toks (FObj ms k # stk) PValue ts | _ \<Rightarrow> None)"
| "parse_toks stk PValueOrEnd (t # ts) =
     (case t of
       TRBrack \<Rightarrow> (case stk of FArr [] # stk' \<Rightarrow> parse_toks stk' (PDone (JArr [])) ts | _ \<Rightarrow> None)
     | TLBrack \<Rightarrow> parse_toks (FArr [] # stk) PValueOrEnd ts
     | TLBrace \<Rightarrow> parse_toks stk PKeyOrEnd ts
     | _ \<Rightarrow> (case scalar_tok t of Some v \<Rightarrow> parse_toks stk (PDone v) ts | None \<Rightarrow> None))"
| "parse_toks stk PValue (t # ts) =
     (case t of
       TLBrack \<Rightarrow> parse_toks (FArr [] # stk) PValueOrEnd ts
     | TLBrace \<Rightarrow> parse_toks stk PKeyOrEnd ts
     | _ \<Rightarrow> (case scalar_tok t of Some v \<Rightarrow> parse_toks stk (PDone v) ts | None \<Rightarrow> None))"

text \<open>\<open>JSON.parse\<close>: \<open>None\<close> is the SyntaxError it throws.\<close>

definition json_parse :: "string \<Rightarrow> jsval option" where
  "json_parse s = (case lex s of None \<Rightarrow> None | Some ts \<Rightarrow> parse_toks [] PValue ts)"

definition json_syntax_error :: js_error where
  "json_syntax_error = SyntaxError ''Unexpected token in JSON''"

subsection \<open>Printer\<close>

definition hex_digit :: "nat \<Rightarrow> char" where
  "hex_digit n = ''0123456789abcdef'' ! n"

text \<open>
  JSON.stringify's escaping: quote and backslash, the five short escapes, the other
  control characters as \<open>\u00XX\<close>; every other byte as it is.
\<close>

definition json_escape :: "char \<Rightarrow> string" where
  "json_escape c =
     (if c = CHR 0x22 then [CHR 0x5C, CHR 0x22]
      else if c = CHR 0x5C then [CHR 0x5C, CHR 0x5C]
      else if c = CHR 0x08 then [CHR 0x5C, CHR ''b'']
      else if c = CHR 0x0C then [CHR 0x5C, CHR ''f'']
      else if c = CHR 0x0A then [CHR 0x5C, CHR ''n'']
      else if c = CHR 0x0D then [CHR 0x5C, CHR ''r'']
      else if c = CHR 0x09 then [CHR 0x5C, CHR ''t'']
      else if (of_char c :: nat) < 32 then
        [CHR 0x5C, CHR ''u'', CHR ''0'', CHR ''0'', hex_digit (of_char c div 16), hex_digit (of_char c mod 16)]
      else [c])"

definition json_quote :: "string \<Rightarrow> string" where
  "json_quote s = CHR 0x22 # concat (map json_escape s) @ [CHR 0x22]"

fun json_stringify :: "jsval \<Rightarrow> string" where
  "json_stringify JNull = ''null''"
| "json_stringify (JBool b) = (if b then ''true'' else ''false'')"
| "json_stringify (JNum m e) = num_string m e"
| "json_stringify (JStr s) = json_quote s"
| "json_stringify (JArr xs) = CHR ''['' # join_with '','' (map json_stringify xs) @ '']''"
| "json_stringify (JObj kvs) =
     CHR ''{'' # join_with '','' (map (\<lambda>(k, v). json_quote k @ CHR '':'' # json_stringify v) kvs) @ ''}''"

end
