(* ===== verification/Normalizer.thy ===== *)
theory Normalizer
  imports Json
begin

text \<open>
  The response normaliser: \<open>processApiResponse\<close> (index.js lines 199--226), which turns
  the parsed body of a grounded-search reply into the summary text and the list of cited
  sources or throws, and the inline extraction of the structured reply in
  \<open>callGeminiForDetails\<close> (lines 508--513), which parses the first candidate's text as
  JSON. Both read the nested, partly optional response shape with \<open>.\<close> and \<open>?.\<close>
  exactly as the code does; every \<open>throw\<close>, and every TypeError the reads can raise,
  is an \<open>Inl\<close> of the result.
\<close>

subsection \<open>Definitions\<close>

text \<open>A cited source as the code builds it: \<open>{uri: attr.web?.uri, title: attr.web?.title}\<close>.\<close>

record source_ref =
  src_uri :: jsopt
  src_title :: jsopt

text \<open>The object \<open>{text, sources}\<close> that \<open>processApiResponse\<close> returns.\<close>

record answer =
  ans_text :: jsopt
  ans_sources :: "source_ref list"

text \<open>The callback of \<open>groundingAttributions.map\<close> (lines 218--221).\<close>

definition attr_source :: "jsval \<Rightarrow> js_error + source_ref" where
  "attr_source attr =
     (case member (Some attr) ''web'' of
       Inl e \<Rightarrow> Inl e
     | Inr w \<Rightarrow> Inr \<lparr>src_uri = opt_member w ''uri'', src_title = opt_member w ''title''\<rparr>)"

text \<open>The filter of line 222: both fields truthy.\<close>

definition source_ok :: "source_ref \<Rightarrow> bool" where
  "source_ok s \<longleftrightarrow> truthy_opt (src_uri s) \<and> truthy_opt (src_title s)"

text \<open>\<open>v.map(f)\<close>: only an array has a \<open>map\<close> method.\<close>

definition array_map :: "string \<Rightarrow> (jsval \<Rightarrow> js_error + 'b) \<Rightarrow> jsopt \<Rightarrow> js_error + 'b list" where
  "array_map what f v =
     (case v of
       Some (JArr xs) \<Rightarrow> map_throw f xs
     | _ \<Rightarrow> Inl (TypeError (what @ ''.map is not a function'')))"

text \<open>
  \<open>candidate.content?.parts?.[0]?.text\<close> (lines 212 and 509; the candidate is truthy
  there, so its own \<open>.\<close> is a \<open>?.\<close>).
\<close>

definition candidate_text :: "jsopt \<Rightarrow> jsopt" where
  "candidate_text candidate =
     opt_member (opt_member (opt_member (opt_member candidate ''content'') ''parts'') ''0'') ''text''"

text \<open>
  \<open>processApiResponse(result)\<close>. The guard \<open>result.promptFeedback &&
  result.promptFeedback.blockReason\<close> reads \<open>blockReason\<close> only from a truthy, hence
  non-nullish, value, where \<open>.\<close> and \<open>?.\<close> agree; likewise \<open>candidate.x\<close> on the
  truthy candidate and \<open>metadata.groundingAttributions\<close> on the truthy metadata.
\<close>

definition process_api_response :: "jsval \<Rightarrow> js_error + answer" where
  "process_api_response result =
     (case member (Some result) ''candidates'' of
       Inl e \<Rightarrow> Inl e
     | Inr cands \<Rightarrow>
         (let candidate = opt_member cands ''0'' in
          if \<not> truthy_opt candidate then
            (let pf = opt_member (Some result) ''promptFeedback'' in
             if truthy_opt pf \<and> truthy_opt (opt_member pf ''blockReason'')
             then Inl (Error (''Query blocked: '' @ to_string_opt (opt_member pf ''blockReason'')))
             else Inl (Error ''Invalid API response structure.''))
          else
            (let fr = opt_member candidate ''finishReason'' in
             if fr = Some (JStr ''SAFETY'') \<or> fr = Some (JStr ''RECITATION'')
             then Inl (Error ''Response blocked for safety or recitation reasons.'')
             else
               (let text = js_or (candidate_text candidate) (Some JNull);
                    metadata = opt_member candidate ''groundingMetadata''
                in if truthy_opt metadata \<and> truthy_opt (opt_member metadata ''groundingAttributions'')
                   then (case array_map ''metadata.groundingAttributions'' attr_source
                                (opt_member metadata ''groundingAttributions'') of
                           Inl e \<Rightarrow> Inl e
                         | Inr srcs \<Rightarrow> Inr \<lparr>ans_text = text, ans_sources = filter source_ok srcs\<rparr>)
                   else Inr \<lparr>ans_text = text, ans_sources = []\<rparr>))))"

text \<open>
  Lines 508--513 of \<open>callGeminiForDetails\<close>: the first candidate's text, if the
  candidate and the text are truthy, goes through \<open>JSON.parse\<close> (after ToString);
  otherwise an Error. No finish reason or block reason is looked at.
\<close>

definition details_of_response :: "jsval \<Rightarrow> js_error + jsval" where
  "details_of_response result =
     (case member (Some result) ''candidates'' of
       Inl e \<Rightarrow> Inl e
     | Inr cands \<Rightarrow>
         (let candidate = opt_member cands ''0'' in
          if truthy_opt candidate \<and> truthy_opt (candidate_text candidate)
          then (case json_parse (to_string_opt (candidate_text candidate)) of
                  None \<Rightarrow> Inl json_syntax_error
                | Some v \<Rightarrow> Inr v)
          else Inl (Error ''Invalid response structure from generative API.'')))"

text \<open>
  The attribution's \<open>web.uri\<close> and \<open>web.title\<close>, for an attribution that is not
  null (the reading of lines 219--220 on such an attribution).
\<close>

definition web_source :: "jsval \<Rightarrow> source_ref" where
  "web_source a =
     \<lparr>src_uri = opt_member (get_prop a ''web'') ''uri'', src_title = opt_member (get_prop a ''web'') ''title''\<rparr>"

text \<open>
  The example reply of the specification's testable properties: two attributions, the
  second without a \<open>uri\<close>.
\<close>

definition example_attributions :: "jsval list" where
  "example_attributions =
     [JObj [(''web'', JObj [(''uri'', JStr ''a''), (''title'', JStr ''A'')])],
      JObj [(''web'', JObj [(''title'', JStr ''B'')])]]"

definition example_metadata :: jsval where
  "example_metadata = JObj [(''groundingAttributions'', JArr example_attributions)]"

definition example_candidate :: jsval where
  "example_candidate = JObj [
     (''content'', JObj [(''parts'', JArr [JObj [(''text'', JStr ''summary'')]])]),
     (''finishReason'', JStr ''STOP''),
     (''groundingMetadata'', example_metadata)]"

definition example_reply :: jsval where
  "example_reply = JObj [(''candidates'', JArr [example_candidate])]"

text \<open>A candidate stopped by the safety filter, with some text already generated.\<close>

definition safety_reply :: jsval where
  "safety_reply = JObj [(''candidates'', JArr [JObj [
     (''content'', JObj [(''parts'', JArr [JObj [(''text'', JStr ''partial text'')]])]),
     (''finishReason'', JStr ''SAFETY'')]])]"

text \<open>What the code returns for it: the summary and the one complete source.\<close>

definition example_answer :: answer where
  "example_answer =
     \<lparr>ans_text = Some (JStr ''summary''),
      ans_sources = [\<lparr>src_uri = Some (JStr ''a''), src_title = Some (JStr ''A'')\<rparr>]\<rparr>"

definition safety_details_reply :: jsval where
  "safety_details_reply = JObj [(''candidates'', JArr [JObj [
     (''content'', JObj [(''parts'', JArr [JObj [(''text'', JStr ''{}'')]])]),
     (''finishReason'', JStr ''SAFETY'')]])]"

lemmas normalizer_defs = process_api_response_def candidate_text_def array_map_def
  attr_source_def source_ok_def web_source_def

lemmas example_defs = example_reply_def example_candidate_def example_metadata_def
  example_attributions_def example_answer_def

subsection \<open>Lemmas\<close>

lemma attr_source_web: "a \<noteq> JNull \<Longrightarrow> attr_source a = Inr (web_source a)"
  by (simp add: attr_source_def web_source_def)

lemma attr_source_null: "attr_source JNull = Inl (TypeError ''Cannot read properties of null (reading 'web')'')"
  by (simp add: attr_source_def member_def quoted_def)

lemma process_api_response_text:
  "process_api_response r = Inr a \<Longrightarrow> truthy_opt (ans_text a) \<or> ans_text a = Some JNull"
  by (auto simp: process_api_response_def Let_def js_or_def split: sum.splits if_splits)

text \<open>
  C6. Every source that \<open>processApiResponse\<close> returns has a truthy \<open>uri\<close> and a truthy
  \<open>title\<close>: an entry with a missing or empty field never reaches the page.
\<close>

theorem process_api_response_sources_ok:
  "process_api_response r = Inr a \<Longrightarrow>
   \<forall>s \<in> set (ans_sources a). truthy_opt (src_uri s) \<and> truthy_opt (src_title s)"
  by (auto simp: process_api_response_def Let_def source_ok_def split: sum.splits if_splits)

text \<open>
  C5. A first candidate whose \<open>finishReason\<close> is \<open>SAFETY\<close> or \<open>RECITATION\<close> makes
  \<open>processApiResponse\<close> throw the blocked error, whatever text or sources it carries.
\<close>

theorem process_api_response_blocked:
  assumes "get_prop result ''candidates'' = Some (JArr (cand # others))" and "truthy cand"
    and "get_prop cand ''finishReason'' \<in> {Some (JStr ''SAFETY''), Some (JStr ''RECITATION'')}"
  shows "process_api_response result = Inl (Error ''Response blocked for safety or recitation reasons.'')"
  using assms truthy_not_null [OF assms(2)] by (auto simp: process_api_response_def)

text \<open>
  C7. On a first candidate that is not blocked and whose attribution list is an array
  without null entries, \<open>processApiResponse\<close> returns the candidate's text (or null)
  and, in the order received, the attributions' \<open>web\<close> sources that have both fields.
\<close>

theorem process_api_response_sources:
  assumes cands: "get_prop result ''candidates'' = Some (JArr (cand # others))" and tc: "truthy cand"
    and fr: "get_prop cand ''finishReason'' \<notin> {Some (JStr ''SAFETY''), Some (JStr ''RECITATION'')}"
    and md: "get_prop cand ''groundingMetadata'' = Some md" "truthy md"
    and ga: "get_prop md ''groundingAttributions'' = Some (JArr attrs)"
    and webs: "\<forall>a \<in> set attrs. a \<noteq> JNull"
  shows "process_api_response result =
    Inr \<lparr>ans_text = js_or (opt_member (opt_member (opt_member (get_prop cand ''content'') ''parts'') ''0'') ''text'')
                         (Some JNull),
         ans_sources =
           map (\<lambda>a. \<lparr>src_uri = opt_member (get_prop a ''web'') ''uri'', src_title = opt_member (get_prop a ''web'') ''title''\<rparr>)
             (filter (\<lambda>a. truthy_opt (opt_member (get_prop a ''web'') ''uri'')
                          \<and> truthy_opt (opt_member (get_prop a ''web'') ''title'')) attrs)\<rparr>"
proof -
  have "map_throw attr_source attrs = Inr (map web_source attrs)"
    using webs by (intro map_throw_Inr) (simp add: attr_source_web)
  moreover have "filter source_ok (map web_source attrs) =
      map web_source (filter (\<lambda>a. truthy_opt (opt_member (get_prop a ''web'') ''uri'')
                          \<and> truthy_opt (opt_member (get_prop a ''web'') ''title'')) attrs)"
    by (simp add: filter_map comp_def source_ok_def web_source_def)
  ultimately show ?thesis
    using assms truthy_not_null [OF tc] truthy_not_null [OF md(2)]
    by (auto simp: process_api_response_def array_map_def candidate_text_def web_source_def)
qed

text \<open>
  The structured reply path: a truthy first candidate with non-empty text yields
  \<open>JSON.parse\<close> of the text, nothing else of the candidate being read.
\<close>

lemma details_of_response_text:
  assumes "get_prop r ''candidates'' = Some (JArr (cand # others))" and "truthy cand"
    and "candidate_text (Some cand) = Some (JStr txt)" and "txt \<noteq> []"
  shows "details_of_response r = (case json_parse txt of None \<Rightarrow> Inl json_syntax_error | Some v \<Rightarrow> Inr v)"
  using assms truthy_not_null [OF assms(2)]
  by (simp add: details_of_response_def to_string_opt_def split: option.split)

subsection \<open>Witnesses\<close>

theorem process_api_response_blocked_witness:
  "process_api_response safety_reply = Inl (Error ''Response blocked for safety or recitation reasons.'')"
  by (rule process_api_response_blocked) (simp add: safety_reply_def)+

theorem process_api_response_sources_ok_witness:
  "process_api_response example_reply = Inr example_answer
   \<and> ans_sources example_answer = [\<lparr>src_uri = Some (JStr ''a''), src_title = Some (JStr ''A'')\<rparr>]
   \<and> truthy_opt (Some (JStr ''a'')) \<and> truthy_opt (Some (JStr ''A''))"
proof -
  have r: "process_api_response example_reply = Inr example_answer"
    by (simp add: example_defs normalizer_defs js_or_def)
  show ?thesis
    using r process_api_response_sources_ok [OF r] by (simp add: example_answer_def)
qed

text \<open>
  The specification's example: of the attributions \<open>{web:{uri:"a",title:"A"}}\<close>
  and \<open>{web:{title:"B"}}\<close> only the first is kept, and the summary text is returned.
\<close>

theorem process_api_response_sources_witness:
  "process_api_response example_reply = Inr example_answer"
proof -
  have "process_api_response example_reply =
    Inr \<lparr>ans_text = js_or (opt_member (opt_member (opt_member (get_prop example_candidate ''content'') ''parts'') ''0'') ''text'')
                         (Some JNull),
         ans_sources =
           map (\<lambda>a. \<lparr>src_uri = opt_member (get_prop a ''web'') ''uri'', src_title = opt_member (get_prop a ''web'') ''title''\<rparr>)
             (filter (\<lambda>a. truthy_opt (opt_member (get_prop a ''web'') ''uri'')
                          \<and> truthy_opt (opt_member (get_prop a ''web'') ''title'')) example_attributions)\<rparr>"
    by (rule process_api_response_sources [where others = "[]" and md = example_metadata])
      (simp add: example_defs)+
  then show ?thesis
    by (simp add: example_defs js_or_def)
qed

text \<open>
  C10. The structured reply path never looks at the finish reason: a first candidate
  stopped with \<open>SAFETY\<close> whose text parses as JSON is accepted as the factor's
  details. (The specification applies the blocked check to both paths.)
\<close>

theorem details_of_response_ignores_finish_reason:
  assumes "get_prop r ''candidates'' = Some (JArr (cand # others))" and "truthy cand"
    and "get_prop cand ''finishReason'' = Some (JStr ''SAFETY'')"
    and "candidate_text (Some cand) = Some (JStr txt)" and "txt \<noteq> []" and "json_parse txt = Some v"
  shows "details_of_response r = Inr v"
  using details_of_response_text [OF assms(1,2,4,5)] assms(6) by simp

theorem details_of_response_ignores_finish_reason_witness:
  "details_of_response safety_details_reply = Inr (JObj [])"
proof -
  have p: "json_parse ''{}'' = Some (JObj [])"
    by code_simp
  show ?thesis
    by (rule details_of_response_ignores_finish_reason [OF _ _ _ _ _ p])
      (simp add: safety_details_reply_def candidate_text_def)+
qed

end
