(* ===== verification/Executor.thy ===== *)
theory Executor
  imports Json
begin

text \<open>
  The resilient request executor: the \<open>while (retries > 0) { try ... } catch ...\<close> loop
  that \<open>callGeminiAPI\<close> (index.js lines 165--195) and \<open>callGeminiForDetails\<close>
  (lines 485--522) both contain. One attempt (lines 169--186 and 489--513) sends the
  POST, classifies the status, reads the body with \<open>response.json()\<close> and hands the
  parsed body to the caller's processing; anything thrown inside the \<open>try\<close>, from
  \<open>fetch\<close>, from \<open>response.json()\<close>, from the code's own \<open>throw\<close>s or from the
  processing, is caught and retried.

  The network is an input: \<open>net k\<close> is the outcome of the \<open>k\<close>-th call of \<open>fetch\<close>.
  The loop's observable effects are a trace of events: each call of \<open>fetch\<close> with its
  request, and each \<open>await new Promise(resolve => setTimeout(resolve, delay))\<close> with
  its delay in milliseconds. (The \<open>console.warn\<close> logging is not modelled.)
\<close>

subsection \<open>Definitions\<close>

text \<open>What \<open>fetch\<close> resolves to (status, statusText, body), or its rejection.\<close>

datatype fetch_result = NetworkError | Response nat string string

record request =
  req_url :: string
  req_method :: string
  req_headers :: "(string \<times> string) list"
  req_body :: string

datatype event = Fetch request | Sleep nat

text \<open>\<open>response.status === 429 || (response.status >= 500 && response.status < 600)\<close>\<close>

definition is_transient :: "nat \<Rightarrow> bool" where
  "is_transient st \<longleftrightarrow> st = 429 \<or> (500 \<le> st \<and> st < 600)"

text \<open>\<open>response.ok\<close>\<close>

definition http_ok :: "nat \<Rightarrow> bool" where
  "http_ok st \<longleftrightarrow> 200 \<le> st \<and> st \<le> 299"

text \<open>
  One pass through the \<open>try\<close> block with the outcome \<open>r\<close> of \<open>fetch\<close>; \<open>process\<close> is
  what the caller does with the parsed body (\<open>processApiResponse\<close>, or the extraction of
  lines 508--513). A rejected \<open>fetch\<close> is V8's TypeError.
\<close>

definition attempt :: "(jsval \<Rightarrow> js_error + 'a) \<Rightarrow> fetch_result \<Rightarrow> js_error + 'a" where
  "attempt process r =
     (case r of
       NetworkError \<Rightarrow> Inl (TypeError ''Failed to fetch'')
     | Response st stext body \<Rightarrow>
         if is_transient st then
           Inl (Error (''Server error (status '' @ string_of_nat st @ ''). Retrying...''))
         else if \<not> http_ok st then
           (case json_parse body of
             None \<Rightarrow> Inl json_syntax_error
           | Some error_body \<Rightarrow>
               (case member (Some error_body) ''error'' of
                 Inl e \<Rightarrow> Inl e
               | Inr er \<Rightarrow>
                   Inl (Error (''API Error: '' @
                     to_string_opt (js_or (opt_member er ''message'') (Some (JStr stext)))))))
         else
           (case json_parse body of
             None \<Rightarrow> Inl json_syntax_error
           | Some result \<Rightarrow> process result))"

text \<open>
  The loop, with \<open>retries\<close> and \<open>delay\<close> as the code's two variables and \<open>k\<close> the number
  of calls made so far. \<open>retries--\<close> after a failure leaves \<open>r\<close>; at zero the error is
  rethrown, otherwise the loop sleeps \<open>delay\<close> and doubles it. The loop can fall out of
  the \<open>while\<close> only if \<open>retries\<close> starts at zero, and the async function then returns
  \<open>undefined\<close>: the result \<open>Inr None\<close>.
\<close>

fun retry_loop ::
  "(nat \<Rightarrow> fetch_result) \<Rightarrow> request \<Rightarrow> (fetch_result \<Rightarrow> js_error + 'a) \<Rightarrow> nat \<Rightarrow> nat \<Rightarrow> nat
     \<Rightarrow> event list \<times> (js_error + 'a option)" where
  "retry_loop net req att 0 delay k = ([], Inr None)"
| "retry_loop net req att (Suc r) delay k =
     (case att (net k) of
       Inr v \<Rightarrow> ([Fetch req], Inr (Some v))
     | Inl e \<Rightarrow>
         if r = 0 then ([Fetch req], Inl e)
         else (case retry_loop net req att r (2 * delay) (Suc k) of
                 (tr, res) \<Rightarrow> (Fetch req # Sleep delay # tr, res)))"

subsection \<open>Observations on traces\<close>

fun fetch_count :: "event list \<Rightarrow> nat" where
  "fetch_count [] = 0"
| "fetch_count (Fetch q # es) = Suc (fetch_count es)"
| "fetch_count (Sleep d # es) = fetch_count es"

fun sleeps :: "event list \<Rightarrow> nat list" where
  "sleeps [] = []"
| "sleeps (Fetch q # es) = sleeps es"
| "sleeps (Sleep d # es) = d # sleeps es"

text \<open>
  The trace of \<open>j + 1\<close> calls with exponential backoff between them: call, wait
  \<open>d\<close>, call, wait \<open>2 d\<close>, \<dots>, call.
\<close>

definition backoff_trace :: "request \<Rightarrow> nat \<Rightarrow> nat \<Rightarrow> event list" where
  "backoff_trace req d j = concat (map (\<lambda>i. [Fetch req, Sleep (d * 2 ^ i)]) [0..<j]) @ [Fetch req]"

subsection \<open>Lemmas\<close>

lemma backoff_trace_0 [simp]: "backoff_trace req d 0 = [Fetch req]"
  by (simp add: backoff_trace_def)

lemma upt_0_Suc: "[0..<Suc j] = 0 # map Suc [0..<j]"
  by (simp add: map_Suc_upt upt_conv_Cons del: upt_Suc)

lemma backoff_trace_Suc:
  "backoff_trace req d (Suc j) = Fetch req # Sleep d # backoff_trace req (2 * d) j"
  unfolding backoff_trace_def upt_0_Suc by (simp add: comp_def ac_simps)

lemma fetch_count_backoff_trace [simp]: "fetch_count (backoff_trace req d j) = Suc j"
  by (induction j arbitrary: d) (simp_all add: backoff_trace_Suc)

lemma sleeps_backoff_trace [simp]: "sleeps (backoff_trace req d j) = map (\<lambda>i. d * 2 ^ i) [0..<j]"
proof (induction j arbitrary: d)
  case 0
  then show ?case by simp
next
  case (Suc j)
  then show ?case
    by (simp add: backoff_trace_Suc upt_0_Suc ac_simps del: upt_Suc)
qed

lemma hd_backoff_trace [simp]: "hd (backoff_trace req d j) = Fetch req"
  by (cases j) (simp_all add: backoff_trace_Suc)

lemma last_backoff_trace [simp]: "last (backoff_trace req d j) = Fetch req"
  by (simp add: backoff_trace_def)

lemma set_backoff_trace: "set (backoff_trace req d j) \<subseteq> insert (Fetch req) (range Sleep)"
  by (auto simp: backoff_trace_def)

text \<open>
  Whatever the network does, a loop started with \<open>r > 0\<close> makes between one and \<open>r\<close>
  calls, with the doubling delays between them and no wait before the first or after
  the last, and it never falls out of the \<open>while\<close>.
\<close>

lemma retry_loop_shape:
  "0 < r \<Longrightarrow> \<exists>j < r. fst (retry_loop net req att r d k) = backoff_trace req d j
                     \<and> snd (retry_loop net req att r d k) \<noteq> Inr None"
proof (induction r arbitrary: d k)
  case 0
  then show ?case by simp
next
  case (Suc r)
  show ?case
  proof (cases "att (net k)")
    case (Inl e)
    show ?thesis
    proof (cases "r = 0")
      case True
      with Inl show ?thesis by simp
    next
      case False
      then obtain j where "j < r" and j: "fst (retry_loop net req att r (2 * d) (Suc k)) = backoff_trace req (2 * d) j"
          and "snd (retry_loop net req att r (2 * d) (Suc k)) \<noteq> Inr None"
        using Suc.IH by blast
      with Inl False show ?thesis
        by (intro exI [of _ "Suc j"]) (auto simp: backoff_trace_Suc split: prod.split)
    qed
  next
    case (Inr v)
    then show ?thesis by (intro exI [of _ 0]) simp
  qed
qed

text \<open>The first \<open>j\<close> calls fail and call \<open>j + 1\<close> succeeds, within the budget.\<close>

lemma retry_loop_success:
  "(\<forall>i < j. \<exists>e. att (net (k + i)) = Inl e) \<Longrightarrow> att (net (k + j)) = Inr v \<Longrightarrow> j < r \<Longrightarrow>
   retry_loop net req att r d k = (backoff_trace req d j, Inr (Some v))"
proof (induction j arbitrary: r d k)
  case 0
  then obtain r' where "r = Suc r'" by (cases r) auto
  with "0.prems" show ?case by simp
next
  case (Suc j)
  then obtain r' where r: "r = Suc r'" and "j < r'" by (cases r) auto
  from Suc.prems(1) obtain e where e: "att (net k) = Inl e" by fastforce
  have "retry_loop net req att r' (2 * d) (Suc k) = (backoff_trace req (2 * d) j, Inr (Some v))"
    using Suc.prems \<open>j < r'\<close> by (intro Suc.IH) auto
  with r e \<open>j < r'\<close> show ?case by (simp add: backoff_trace_Suc)
qed

text \<open>Every one of the \<open>r\<close> calls fails: the last error is rethrown.\<close>

lemma retry_loop_exhausted:
  "0 < r \<Longrightarrow> (\<forall>i < r. att (net (k + i)) = Inl (errs i)) \<Longrightarrow>
   retry_loop net req att r d k = (backoff_trace req d (r - 1), Inl (errs (r - 1)))"
proof (induction r arbitrary: d k errs)
  case 0
  then show ?case by simp
next
  case (Suc r)
  show ?case
  proof (cases "r = 0")
    case True
    with Suc.prems show ?thesis by simp
  next
    case False
    have "\<forall>i < r. att (net (Suc k + i)) = Inl (errs (Suc i))"
      using Suc.prems(2) by auto
    then have "retry_loop net req att r (2 * d) (Suc k) = (backoff_trace req (2 * d) (r - 1), Inl (errs (Suc (r - 1))))"
      using Suc.IH [where errs = "\<lambda>i. errs (Suc i)" and d = "2 * d" and k = "Suc k"] False
      by simp
    moreover have "att (net k) = Inl (errs 0)"
      using Suc.prems(2) by auto
    ultimately show ?thesis
      using False by (simp add: backoff_trace_Suc [symmetric])
  qed
qed

text \<open>Every one of the \<open>r\<close> calls fails, whatever the errors are.\<close>

lemma retry_loop_all_fail:
  assumes "0 < r" and "\<forall>i < r. \<exists>e. att (net (k + i)) = Inl e"
  shows "fst (retry_loop net req att r d k) = backoff_trace req d (r - 1)
       \<and> (\<forall>e. att (net (k + (r - 1))) = Inl e \<longrightarrow> snd (retry_loop net req att r d k) = Inl e)"
proof -
  from assms(2) obtain errs where errs: "\<forall>i < r. att (net (k + i)) = Inl (errs i)"
    by metis
  with assms(1) have "retry_loop net req att r d k = (backoff_trace req d (r - 1), Inl (errs (r - 1)))"
    by (rule retry_loop_exhausted)
  moreover have "att (net (k + (r - 1))) = Inl (errs (r - 1))"
    using errs assms(1) diff_less [OF zero_less_one assms(1)] by blast
  ultimately show ?thesis by simp
qed

subsection \<open>One attempt\<close>

lemma attempt_network_error [simp]: "attempt p NetworkError = Inl (TypeError ''Failed to fetch'')"
  by (simp add: attempt_def)

lemma attempt_transient:
  "is_transient st \<Longrightarrow>
   attempt p (Response st s b) = Inl (Error (''Server error (status '' @ string_of_nat st @ ''). Retrying...''))"
  by (simp add: attempt_def)

lemma attempt_ok: "http_ok st \<Longrightarrow> json_parse b = Some r \<Longrightarrow> attempt p (Response st s b) = p r"
  by (simp add: attempt_def is_transient_def http_ok_def)

lemma attempt_bad_json: "\<not> is_transient st \<Longrightarrow> json_parse b = None \<Longrightarrow>
    attempt p (Response st s b) = Inl json_syntax_error"
  by (simp add: attempt_def)

text \<open>A status that is neither transient nor 2xx always ends the attempt with an error.\<close>

lemma attempt_client_error:
  "\<not> is_transient st \<Longrightarrow> \<not> http_ok st \<Longrightarrow> \<exists>e. attempt p (Response st s b) = Inl e"
  by (simp add: attempt_def split: option.split sum.split)

lemma attempt_api_error:
  assumes "\<not> is_transient st" "\<not> http_ok st" "json_parse b = Some eb"
    and "get_prop eb ''error'' = Some er" "er \<noteq> JNull" "get_prop er ''message'' = Some (JStr m)" "m \<noteq> []"
  shows "attempt p (Response st s b) = Inl (Error (''API Error: '' @ m))"
  using assms by (simp add: attempt_def js_or_def to_string_opt_def)

lemma is_transient_429 [simp]: "is_transient 429"
  by (simp add: is_transient_def)

lemma http_ok_200 [simp]: "http_ok 200"
  by (simp add: http_ok_def)

lemma client_error_403 [simp]: "\<not> is_transient 403" "\<not> http_ok 403"
  by (simp_all add: is_transient_def http_ok_def)

end
