(* ===== verification/Services.thy ===== *)
theory Services
  imports Normalizer Executor
begin

text \<open>
  The two request services of the page. \<open>callGeminiAPI(query)\<close> (index.js lines
  138--196) builds the grounded-search payload from the user's query and a fixed system
  prompt, runs the retry loop with \<open>processApiResponse\<close> as the processing of each
  reply, and returns the normalised answer. \<open>callGeminiForDetails(factorName)\<close> (lines
  439--523) builds the structured-extraction payload with its response schema and runs
  the same loop with the JSON extraction of lines 508--513. The prompts are the code's
  template literals character for character, their line breaks and indentation included.
\<close>

subsection \<open>Configuration and payloads\<close>

text \<open>\<open>const apiKey = ""\<close> and the endpoint built from it (lines 141--142, 440--441).\<close>

definition api_key :: string where
  "api_key = []"

definition api_url :: string where
  "api_url = ''https://generativelanguage.googleapis.com/v1beta/models/gemini-2.5-flash-preview-09-2025:generateContent?key='' @ api_key"

definition newline :: string where
  "newline = [CHR 0x0A]"

text \<open>The system prompt of the grounded search (lines 145--156).\<close>

definition research_system_prompt :: string where
  \<open>research_system_prompt = join_with newline [
     ''You are an academic cybersecurity research assistant.'',
     ''            Your purpose is to find and summarize scholarly articles, conference papers, and reports from known cybersecurity institutions (e.g., NIST, ENISA, ACM, IEEE).'',
     ''            You MUST follow these rules:'',
     ''            1.  Your summary MUST be a direct synthesis of the information found in the provided Google Search sources.'',
     ''            2.  **This is the most important rule:** You MUST cite your sources using inline notations like [Source 1], [Source 2], etc.'',
     ''            3.  Each notation must correspond to the numbered source in the 'Grounded Sources' list.'',
     ''            4.  **When listing sources:** Prioritize academic papers and official reports. If a source is from a known academic database (e.g., 'ACM Digital Library', 'IEEE Xplore', 'Springer') or institution ('NIST', 'ENISA'), you MUST name it in the source title.'',
     ''            5.  Example of a good source title: "[IEEE Xplore] A new framework for deepfake detection."'',
     ''            6.  If no academic sources are found, you may use high-quality, reputable news reports as a secondary option.'',
     ''            7.  Focus on:'',
     ''                a) Clear definitions of psychological factors.'',
     ''                b) Specific cases of financial or data loss from these attacks.'']\<close>

text \<open>The payload of lines 159--163.\<close>

definition research_payload :: "string \<Rightarrow> jsval" where
  "research_payload query =
     JObj [(''contents'', JArr [JObj [(''parts'', JArr [JObj [(''text'', JStr query)]])]]),
           (''systemInstruction'', JObj [(''parts'', JArr [JObj [(''text'', JStr research_system_prompt)]])]),
           (''tools'', JArr [JObj [(''google_search'', JObj [])]])]"

text \<open>The \<open>fetch\<close> call of lines 170--174 (and 490--494).\<close>

definition gemini_request :: "jsval \<Rightarrow> request" where
  "gemini_request payload =
     \<lparr>req_url = api_url, req_method = ''POST'', req_headers = [(''Content-Type'', ''application/json'')],
      req_body = json_stringify payload\<rparr>"

text \<open>The prompts and the schema of the structured request (lines 444--467).\<close>

definition details_system_prompt :: string where
  \<open>details_system_prompt = join_with newline [
     ''You are a cybersecurity training expert. '',
     ''            You provide clear, concise, and helpful information.'',
     ''            The user will provide a psychological factor.'',
     ''            You MUST respond ONLY with a JSON object matching the requested schema.'']\<close>

definition details_user_prompt :: "string \<Rightarrow> string" where
  \<open>details_user_prompt factor_name = join_with newline
    [''For the social engineering principle "'' @ factor_name @ ''", please provide:'',
     ''            1.  A brief 'definition' (1-2 sentences).'',
     ''            2.  A realistic 'example' attack scenario (as a short paragraph, email, or script).'',
     ''            3.  A list of 3-5 scannable 'defense_tips' for an end-user.'']\<close>

definition details_schema :: jsval where
  "details_schema =
     JObj [(''type'', JStr ''OBJECT''),
           (''properties'', JObj [(''definition'', JObj [(''type'', JStr ''STRING'')]),
                                  (''example'', JObj [(''type'', JStr ''STRING'')]),
                                  (''defense_tips'', JObj [(''type'', JStr ''ARRAY''),
                                                           (''items'', JObj [(''type'', JStr ''STRING'')])])]),
           (''required'', JArr [JStr ''definition'', JStr ''example'', JStr ''defense_tips''])]"

text \<open>The payload of lines 470--482; \<open>temperature: 0.5\<close> is the decimal \<open>5 * 10 ^ -1\<close>.\<close>

definition details_payload :: "string \<Rightarrow> jsval" where
  "details_payload factor_name =
     JObj [(''contents'', JArr [JObj [(''role'', JStr ''user''),
                                       (''parts'', JArr [JObj [(''text'', JStr (details_user_prompt factor_name))]])]]),
           (''systemInstruction'', JObj [(''parts'', JArr [JObj [(''text'', JStr details_system_prompt)]])]),
           (''generationConfig'', JObj [(''responseMimeType'', JStr ''application/json''),
                                        (''responseSchema'', details_schema),
                                        (''temperature'', JNum 5 (-1))])]"

subsection \<open>The services\<close>

text \<open>
  \<open>callGeminiAPI(query)\<close>: \<open>let retries = 3; let delay = 1000;\<close> and the loop, whose
  attempts return \<open>processApiResponse(result)\<close>.
\<close>

definition call_gemini_api :: "(nat \<Rightarrow> fetch_result) \<Rightarrow> string \<Rightarrow> event list \<times> (js_error + answer option)" where
  "call_gemini_api net query =
     retry_loop net (gemini_request (research_payload query)) (attempt process_api_response) 3 1000 0"

text \<open>\<open>callGeminiForDetails(factorName)\<close>: the same loop, returning the parsed JSON.\<close>

definition call_gemini_for_details :: "(nat \<Rightarrow> fetch_result) \<Rightarrow> string \<Rightarrow> event list \<times> (js_error + jsval option)" where
  "call_gemini_for_details net factor_name =
     retry_loop net (gemini_request (details_payload factor_name)) (attempt details_of_response) 3 1000 0"

subsection \<open>Test networks\<close>

text \<open>Two calls rate-limited, then the example reply.\<close>

definition rate_limited_net :: "nat \<Rightarrow> fetch_result" where
  "rate_limited_net k =
     (if k < 2 then Response 429 ''Too Many Requests'' [] else Response 200 ''OK'' (json_stringify example_reply))"

text \<open>The service's answer to a request with an invalid key.\<close>

definition forbidden_body :: string where
  "forbidden_body = json_stringify (JObj [(''error'', JObj [(''code'', JNum 403 0),
     (''message'', JStr ''API key not valid. Please pass a valid API key.''), (''status'', JStr ''PERMISSION_DENIED'')])])"

definition forbidden_net :: "nat \<Rightarrow> fetch_result" where
  "forbidden_net k = Response 403 ''Forbidden'' forbidden_body"

text \<open>The specification's example reply for the factor "Urgency".\<close>

definition urgency_details :: jsval where
  "urgency_details = JObj [(''definition'', JStr ''d''), (''example'', JStr ''e''),
                           (''defense_tips'', JArr [JStr ''t1'', JStr ''t2''])]"

definition details_reply :: "string \<Rightarrow> jsval" where
  "details_reply txt = JObj [(''candidates'', JArr [JObj [
     (''content'', JObj [(''parts'', JArr [JObj [(''text'', JStr txt)]])]), (''finishReason'', JStr ''STOP'')]])]"

definition details_net :: "string \<Rightarrow> nat \<Rightarrow> fetch_result" where
  "details_net txt k = Response 200 ''OK'' (json_stringify (details_reply txt))"

subsection \<open>Properties of the grounded-search service\<close>

lemma call_gemini_api_shape:
  "\<exists>j < 3. fst (call_gemini_api net q) = backoff_trace (gemini_request (research_payload q)) 1000 j
         \<and> snd (call_gemini_api net q) \<noteq> Inr None"
  unfolding call_gemini_api_def by (rule retry_loop_shape) simp

lemma less_3_cases: "j < (3::nat) \<Longrightarrow> j = 0 \<or> j = 1 \<or> j = 2"
  by arith

text \<open>
  C1. Whatever the network answers, \<open>callGeminiAPI\<close> calls \<open>fetch\<close> at least once
  and at most three times, and it always settles with an answer or an error: it never
  returns \<open>undefined\<close>.
\<close>

theorem call_gemini_api_attempts:
  "fetch_count (fst (call_gemini_api net q)) \<in> {1, 2, 3} \<and> snd (call_gemini_api net q) \<noteq> Inr None"
  using retry_loop_shape [of 3 net "gemini_request (research_payload q)" "attempt process_api_response" 1000 0]
  unfolding call_gemini_api_def by (auto dest!: less_3_cases)

text \<open>
  C2. The waits between the calls of \<open>callGeminiAPI\<close> double from 1000 ms: 1000 ms
  between the first and second call and 2000 ms between the second and third, with no
  wait before the first call or after the last; every call sends the same POST.
\<close>

theorem call_gemini_api_backoff:
  "sleeps (fst (call_gemini_api net q)) = take (fetch_count (fst (call_gemini_api net q)) - 1) [1000, 2000]
   \<and> hd (fst (call_gemini_api net q)) = Fetch (gemini_request (research_payload q))
   \<and> last (fst (call_gemini_api net q)) = Fetch (gemini_request (research_payload q))
   \<and> set (fst (call_gemini_api net q)) \<subseteq> insert (Fetch (gemini_request (research_payload q))) (range Sleep)"
proof -
  obtain j where j: "j < 3"
    and tr: "fst (call_gemini_api net q) = backoff_trace (gemini_request (research_payload q)) 1000 j"
    using call_gemini_api_shape [of net q] by blast
  have "sleeps (backoff_trace req 1000 j) = take j [1000, 2000]" for req
    using j by (auto dest!: less_3_cases simp: numeral_2_eq_2 upt_0_Suc simp del: upt_Suc)
  then show ?thesis
    using tr set_backoff_trace by simp
qed

text \<open>
  C3. Two rate-limited replies (HTTP 429) followed by a 200 whose body is valid JSON:
  \<open>callGeminiAPI\<close> makes exactly three calls, waits 1000 and 2000 ms, and returns
  \<open>processApiResponse\<close> of the third body.
\<close>

theorem call_gemini_api_rate_limited_then_ok:
  assumes "net 0 = Response 429 s0 b0" "net 1 = Response 429 s1 b1" "net 2 = Response 200 s2 body"
    and "json_parse body = Some r" "process_api_response r = Inr a"
  shows "call_gemini_api net q = (backoff_trace (gemini_request (research_payload q)) 1000 2, Inr (Some a))"
  unfolding call_gemini_api_def
  by (rule retry_loop_success) (use assms in \<open>auto simp: attempt_transient attempt_ok numeral_2_eq_2 less_Suc_eq\<close>)

theorem call_gemini_api_rate_limited_then_ok_witness:
  "call_gemini_api rate_limited_net ''phishing losses'' =
     (backoff_trace (gemini_request (research_payload ''phishing losses'')) 1000 2, Inr (Some example_answer))"
proof -
  have p: "json_parse (json_stringify example_reply) = Some example_reply"
    by code_simp
  have a: "process_api_response example_reply = Inr example_answer"
    by (simp add: example_defs normalizer_defs js_or_def)
  show ?thesis
    by (rule call_gemini_api_rate_limited_then_ok [OF _ _ _ p a]) (simp_all add: rate_limited_net_def)
qed

text \<open>
  C4. A client error is retried like a transient one: when every call is answered 403
  with the service's error message, \<open>callGeminiAPI\<close> makes all three calls, with the
  backoff waits, before it rethrows \<open>API Error: <message>\<close>. (The specification asks
  for one call and an immediate failure.)
\<close>

theorem call_gemini_api_client_error_retried:
  assumes "\<forall>k < 3. net k = Response 403 stext body" and "json_parse body = Some eb"
    and "get_prop eb ''error'' = Some er" "er \<noteq> JNull" "get_prop er ''message'' = Some (JStr m)" "m \<noteq> []"
  shows "call_gemini_api net q =
    (backoff_trace (gemini_request (research_payload q)) 1000 2, Inl (Error (''API Error: '' @ m)))"
proof -
  have "attempt process_api_response (Response 403 stext body) = Inl (Error (''API Error: '' @ m))"
    by (rule attempt_api_error) (use assms in simp_all)
  then have "\<forall>i < 3. attempt process_api_response (net (0 + i)) = Inl (Error (''API Error: '' @ m))"
    using assms(1) by simp
  then show ?thesis
    unfolding call_gemini_api_def
    by (simp add: retry_loop_exhausted [where errs = "\<lambda>_. Error (''API Error: '' @ m)"])
qed

theorem call_gemini_api_client_error_retried_witness:
  "call_gemini_api forbidden_net ''phishing losses'' =
    (backoff_trace (gemini_request (research_payload ''phishing losses'')) 1000 2,
     Inl (Error (''API Error: '' @ ''API key not valid. Please pass a valid API key.'')))"
proof -
  have p: "json_parse forbidden_body = Some (JObj [(''error'', JObj [(''code'', JNum 403 0),
     (''message'', JStr ''API key not valid. Please pass a valid API key.''), (''status'', JStr ''PERMISSION_DENIED'')])])"
    unfolding forbidden_body_def by code_simp
  show ?thesis
    by (rule call_gemini_api_client_error_retried [where stext = "''Forbidden''", OF _ p])
      (simp add: forbidden_net_def)+
qed

subsection \<open>Properties of the structured-detail service\<close>

text \<open>
  C8. When the first call returns a 200 whose first candidate carries text that parses as
  JSON, \<open>callGeminiForDetails\<close> makes one call and returns the parsed value.
\<close>

theorem call_gemini_for_details_ok:
  assumes "net 0 = Response 200 s body" and "json_parse body = Some r"
    and "get_prop r ''candidates'' = Some (JArr (cand # others))" and "truthy cand"
    and "candidate_text (Some cand) = Some (JStr txt)" and "txt \<noteq> []" and "json_parse txt = Some v"
  shows "call_gemini_for_details net f = (backoff_trace (gemini_request (details_payload f)) 1000 0, Inr (Some v))"
proof -
  have "attempt details_of_response (net 0) = Inr v"
    using assms by (simp add: attempt_ok details_of_response_text)
  then show ?thesis
    unfolding call_gemini_for_details_def by (intro retry_loop_success) simp_all
qed

theorem call_gemini_for_details_ok_witness:
  "call_gemini_for_details (details_net (json_stringify urgency_details)) ''Urgency'' =
     (backoff_trace (gemini_request (details_payload ''Urgency'')) 1000 0, Inr (Some urgency_details))"
proof -
  have b: "json_parse (json_stringify (details_reply (json_stringify urgency_details)))
      = Some (details_reply (json_stringify urgency_details))"
    by code_simp
  have t: "json_parse (json_stringify urgency_details) = Some urgency_details"
    by code_simp
  have n: "json_stringify urgency_details \<noteq> []"
    by (simp add: urgency_details_def)
  show ?thesis
    by (rule call_gemini_for_details_ok [OF _ b _ _ _ n t])
      (simp add: details_net_def details_reply_def candidate_text_def)+
qed

text \<open>
  C9. When every call returns a candidate whose text is not JSON, the SyntaxError of
  \<open>JSON.parse\<close> is caught and retried like any other error: three calls, the backoff
  waits, and the SyntaxError rethrown.
\<close>

theorem call_gemini_for_details_bad_json:
  assumes "\<forall>k < 3. net k = Response 200 s body" and "json_parse body = Some r"
    and "get_prop r ''candidates'' = Some (JArr (cand # others))" and "truthy cand"
    and "candidate_text (Some cand) = Some (JStr txt)" and "txt \<noteq> []" and "json_parse txt = None"
  shows "call_gemini_for_details net f = (backoff_trace (gemini_request (details_payload f)) 1000 2, Inl json_syntax_error)"
proof -
  have "attempt details_of_response (Response 200 s body) = Inl json_syntax_error"
    using assms(2-7) by (simp add: attempt_ok details_of_response_text)
  then have "\<forall>i < 3. attempt details_of_response (net (0 + i)) = Inl json_syntax_error"
    using assms(1) by simp
  then show ?thesis
    unfolding call_gemini_for_details_def by (simp add: retry_loop_exhausted [where errs = "\<lambda>_. json_syntax_error"])
qed

theorem call_gemini_for_details_bad_json_witness:
  "call_gemini_for_details (details_net ''Sorry, I cannot help with that.'') ''Urgency'' =
     (backoff_trace (gemini_request (details_payload ''Urgency'')) 1000 2, Inl json_syntax_error)"
proof -
  have b: "json_parse (json_stringify (details_reply ''Sorry, I cannot help with that.''))
      = Some (details_reply ''Sorry, I cannot help with that.'')"
    by code_simp
  have t: "json_parse ''Sorry, I cannot help with that.'' = None"
    by code_simp
  show ?thesis
    by (rule call_gemini_for_details_bad_json [where s = "''OK''", OF _ b _ _ _ _ t])
      (simp add: details_net_def details_reply_def candidate_text_def)+
qed

end
