(* ===== verification/SearchUI.thy ===== *)
theory SearchUI
  imports Services
begin

text \<open>
  The search panel (index.js part B): \<open>handleSearch\<close> (lines 108--135),
  \<open>displayResults\<close> (229--285), \<open>shareResults\<close> (288--308), \<open>copyToClipboard\<close>
  (311--328) and the helpers \<open>showLoading\<close>, \<open>showError\<close>, \<open>showResults\<close> (331--358).
  The DOM elements the code touches are a view-model record: one field per element
  property the code writes (a visibility class, a text content, the list items of the
  sources, the share button's \<open>onclick\<close> closure). \<open>handleSearch\<close> is split at its
  \<open>await\<close>: \<open>search_start\<close> runs up to the call of \<open>callGeminiAPI\<close>, and
  \<open>search_finish\<close> runs when that promise settles. Since the page stays responsive while
  a request is in flight, several searches may overlap; \<open>search_step\<close> is the step
  relation of the page with the requests in flight.
\<close>

subsection \<open>View model\<close>

record search_view =
  input_value :: string
  loader_shown :: bool
  error_shown :: bool
  error_text :: string
  prompt_hidden :: bool
  results_shown :: bool
  summary_text :: string
  summary_shown :: bool
  source_items :: "(string \<times> string) list"
  share_shown :: bool
  share_handler :: "(jsopt \<times> source_ref list) option"
  copy_note_shown :: bool

text \<open>The panel as the page loads: only the prompt is visible.\<close>

definition initial_view :: search_view where
  "initial_view =
     \<lparr>input_value = [], loader_shown = False, error_shown = False, error_text = [],
      prompt_hidden = False, results_shown = False, summary_text = [], summary_shown = False,
      source_items = [], share_shown = False, share_handler = None, copy_note_shown = False\<rparr>"

subsection \<open>Helpers\<close>

text \<open>
  \<open>String.prototype.trim\<close>: the code points ECMAScript counts as WhiteSpace (tab,
  vertical tab, form feed, U+FEFF and the space separators of category Zs) and as
  LineTerminator (line feed, carriage return, U+2028, U+2029).
\<close>

definition js_white_space :: "nat list" where
  "js_white_space =
     [0x09, 0x0A, 0x0B, 0x0C, 0x0D, 0x20, 0xA0, 0x1680, 0x2000, 0x2001, 0x2002, 0x2003, 0x2004,
      0x2005, 0x2006, 0x2007, 0x2008, 0x2009, 0x200A, 0x2028, 0x2029, 0x202F, 0x205F, 0x3000, 0xFEFF]"

text \<open>
  Strings are UTF-8 bytes, so trimming strips whole encoded code points: the longest run
  of leading byte sequences among \<open>seqs\<close> is dropped. A sequence that starts with a lead
  byte can only match at a character boundary, at the front and, reversed, at the back.
\<close>

function strip_seqs :: "string list \<Rightarrow> string \<Rightarrow> string" where
  "strip_seqs seqs s =
     (case find (\<lambda>w. w \<noteq> [] \<and> take (length w) s = w) seqs of
       Some w \<Rightarrow> strip_seqs seqs (drop (length w) s)
     | None \<Rightarrow> s)"
  by pat_completeness auto
termination
proof (relation "measure (\<lambda>(seqs, s). length s)")
  fix seqs s w
  assume "find (\<lambda>w. w \<noteq> [] \<and> take (length w) s = w) seqs = Some w"
  then have "w \<noteq> []" and "take (length w) s = w" by (auto simp: find_Some_iff)
  then show "((seqs, drop (length w) s), seqs, s) \<in> measure (\<lambda>(seqs, s). length s)"
    by (cases s) auto
qed simp

declare strip_seqs.simps [simp del]

text \<open>
  The UTF-8 encodings of \<open>js_white_space\<close>, in the same order (the lemma
  \<open>js_white_space_utf8_encodes\<close> checks them against \<open>utf8\<close>).
\<close>

definition js_white_space_utf8 :: "string list" where
  "js_white_space_utf8 =
     [[CHR 0x09], [CHR 0x0A], [CHR 0x0B], [CHR 0x0C], [CHR 0x0D], [CHR 0x20],
      [CHR 0xC2, CHR 0xA0], [CHR 0xE1, CHR 0x9A, CHR 0x80], [CHR 0xE2, CHR 0x80, CHR 0x80],
      [CHR 0xE2, CHR 0x80, CHR 0x81], [CHR 0xE2, CHR 0x80, CHR 0x82],
      [CHR 0xE2, CHR 0x80, CHR 0x83], [CHR 0xE2, CHR 0x80, CHR 0x84],
      [CHR 0xE2, CHR 0x80, CHR 0x85], [CHR 0xE2, CHR 0x80, CHR 0x86],
      [CHR 0xE2, CHR 0x80, CHR 0x87], [CHR 0xE2, CHR 0x80, CHR 0x88],
      [CHR 0xE2, CHR 0x80, CHR 0x89], [CHR 0xE2, CHR 0x80, CHR 0x8A],
      [CHR 0xE2, CHR 0x80, CHR 0xA8], [CHR 0xE2, CHR 0x80, CHR 0xA9],
      [CHR 0xE2, CHR 0x80, CHR 0xAF], [CHR 0xE2, CHR 0x81, CHR 0x9F],
      [CHR 0xE3, CHR 0x80, CHR 0x80], [CHR 0xEF, CHR 0xBB, CHR 0xBF]]"

definition js_trim :: "string \<Rightarrow> string" where
  "js_trim s = rev (strip_seqs (map rev js_white_space_utf8) (rev (strip_seqs js_white_space_utf8 s)))"

text \<open>\<open>showLoading(isLoading)\<close> (lines 331--339).\<close>

definition show_loading :: "bool \<Rightarrow> search_view \<Rightarrow> search_view" where
  "show_loading b v = v\<lparr>loader_shown := b\<rparr>"

text \<open>\<open>showError(message)\<close> (lines 341--350): a truthy message is written and shown;
  \<open>null\<close> (and the empty string) hides the box and leaves its text.\<close>

definition show_error :: "string option \<Rightarrow> search_view \<Rightarrow> search_view" where
  "show_error msg v =
     (case msg of
       Some m \<Rightarrow> if m \<noteq> [] then v\<lparr>error_text := m, error_shown := True\<rparr> else v\<lparr>error_shown := False\<rparr>
     | None \<Rightarrow> v\<lparr>error_shown := False\<rparr>)"

text \<open>\<open>showResults(shouldShow)\<close> (lines 352--358).\<close>

definition show_results :: "bool \<Rightarrow> search_view \<Rightarrow> search_view" where
  "show_results b v = v\<lparr>results_shown := b\<rparr>"

text \<open>
  \<open>displayResults(summary, sources)\<close> (lines 229--285): one list item per source with
  its title and its uri as text (the link's \<open>href\<close> is the uri), the summary or the
  fallback sentence, the share button shown with a closure over this summary and these
  sources, and the results shown.
\<close>

definition display_results :: "jsopt \<Rightarrow> source_ref list \<Rightarrow> search_view \<Rightarrow> search_view" where
  "display_results summary sources v =
     show_results True
       (v\<lparr>source_items := map (\<lambda>s. (to_string_opt (src_title s), to_string_opt (src_uri s))) sources,
          summary_text := (if truthy_opt summary then to_string_opt summary
                           else ''No summary was generated, but you can review the sources above.''),
          summary_shown := True,
          share_shown := True,
          share_handler := Some (summary, sources)\<rparr>)"

subsection \<open>handleSearch\<close>

text \<open>
  Lines 109--118: an empty trimmed query returns at once; otherwise the panel is reset
  and the query goes to \<open>callGeminiAPI\<close>.
\<close>

definition search_start :: "search_view \<Rightarrow> search_view \<times> string option" where
  "search_start v =
     (let query = js_trim (input_value v) in
      if query = [] then (v, None)
      else (show_results False (show_error None (show_loading True v))
              \<lparr>prompt_hidden := True, copy_note_shown := False, share_shown := False\<rparr>, Some query))"

text \<open>
  Lines 124--134, once \<open>callGeminiAPI\<close> has settled with \<open>out\<close>: a response with a
  truthy text or at least one source is displayed; one with neither is the "no results"
  error; a thrown error shows its message (or the fallback for an empty one); a response
  of \<open>undefined\<close> would throw on \<open>response.text\<close>. The \<open>finally\<close> hides the loader.
\<close>

definition search_finish :: "js_error + answer option \<Rightarrow> search_view \<Rightarrow> search_view" where
  "search_finish out v =
     show_loading False
       (case out of
         Inr (Some resp) \<Rightarrow>
           if truthy_opt (ans_text resp) \<or> ans_sources resp \<noteq> []
           then display_results (ans_text resp) (ans_sources resp) v
           else show_error (Some ''No relevant results found for this specific query.'') v
       | Inr None \<Rightarrow> show_error (Some ''Cannot read properties of undefined (reading 'text')'') v
       | Inl e \<Rightarrow>
           show_error (Some (if err_message e \<noteq> [] then err_message e
                             else ''Failed to fetch results. Please try again.'')) v)"

text \<open>One whole search, with no other event while it is in flight.\<close>

definition handle_search :: "(nat \<Rightarrow> fetch_result) \<Rightarrow> search_view \<Rightarrow> search_view \<times> event list" where
  "handle_search net v =
     (case search_start v of
       (v1, None) \<Rightarrow> (v1, [])
     | (v1, Some q) \<Rightarrow> (case call_gemini_api net q of (tr, out) \<Rightarrow> (search_finish out v1, tr)))"

subsection \<open>Overlapping searches\<close>

text \<open>
  The page while searches are in flight: the panel and the queries whose
  \<open>callGeminiAPI\<close> promise has not settled yet, oldest first. A step is the user
  editing the input, a submission (button or Enter), or the settling of any one request
  in flight, with whatever outcome some behaviour of the network gives it.
\<close>

record page =
  panel :: search_view
  in_flight :: "string list"

definition initial_page :: page where
  "initial_page = \<lparr>panel = initial_view, in_flight = []\<rparr>"

inductive search_step :: "page \<Rightarrow> page \<Rightarrow> bool" where
  edit: "search_step p (p\<lparr>panel := (panel p)\<lparr>input_value := s\<rparr>\<rparr>)"
| submit: "search_start (panel p) = (v, Some q) \<Longrightarrow>
    search_step p \<lparr>panel = v, in_flight = in_flight p @ [q]\<rparr>"
| submit_empty: "search_start (panel p) = (v, None) \<Longrightarrow> search_step p (p\<lparr>panel := v\<rparr>)"
| settle: "i < length (in_flight p) \<Longrightarrow>
    search_step p \<lparr>panel = search_finish (snd (call_gemini_api net (in_flight p ! i))) (panel p),
                   in_flight = take i (in_flight p) @ drop (Suc i) (in_flight p)\<rparr>"

inductive reachable_page :: "page \<Rightarrow> bool" where
  init: "reachable_page initial_page"
| step: "reachable_page p \<Longrightarrow> search_step p p' \<Longrightarrow> reachable_page p'"

inductive_cases search_step_cases: "search_step p p'"

text \<open>Runs of the page used below: typing, submitting, one request settling.\<close>

definition typed_page :: "string \<Rightarrow> page" where
  "typed_page s = initial_page\<lparr>panel := (panel initial_page)\<lparr>input_value := s\<rparr>\<rparr>"

definition submitted_page :: "page \<Rightarrow> page" where
  "submitted_page p =
     \<lparr>panel = fst (search_start (panel p)), in_flight = in_flight p @ [js_trim (input_value (panel p))]\<rparr>"

definition settled_page :: "(nat \<Rightarrow> fetch_result) \<Rightarrow> nat \<Rightarrow> page \<Rightarrow> page" where
  "settled_page net i p =
     \<lparr>panel = search_finish (snd (call_gemini_api net (in_flight p ! i))) (panel p),
      in_flight = take i (in_flight p) @ drop (Suc i) (in_flight p)\<rparr>"

text \<open>A reply whose only candidate has neither content nor grounding.\<close>

definition empty_reply :: jsval where
  "empty_reply = JObj [(''candidates'', JArr [JObj [(''finishReason'', JStr ''STOP'')]])]"

definition empty_net :: "nat \<Rightarrow> fetch_result" where
  "empty_net k = Response 200 ''OK'' (json_stringify empty_reply)"

subsection \<open>Lemmas\<close>

lemmas view_defs = show_loading_def show_error_def show_results_def display_results_def

lemma js_white_space_utf8_encodes: "js_white_space_utf8 = map utf8 js_white_space"
proof -
  have e: "map (map (of_char :: char \<Rightarrow> nat)) js_white_space_utf8 = map (map of_char) (map utf8 js_white_space)"
    by (simp add: js_white_space_utf8_def js_white_space_def utf8_def of_char_of)
  have i: "inj (map (of_char :: char \<Rightarrow> nat))"
    by (intro inj_mapI) (simp add: inj_def)
  show ?thesis using inj_map_eq_map [OF i] e by blast
qed
lemma js_trim_no_break_space: "js_trim [CHR 0xC2, CHR 0xA0] = []"
  by (simp add: js_trim_def js_white_space_utf8_def strip_seqs.simps)

lemma loader_search_finish [simp]: "loader_shown (search_finish out v) = False"
  by (simp add: search_finish_def show_loading_def)

lemma search_start_loader:
  "search_start v = (v', Some q) \<Longrightarrow> loader_shown v' \<and> q = js_trim (input_value v) \<and> q \<noteq> []"
  by (auto simp: search_start_def Let_def view_defs split: if_splits)

lemma search_start_empty: "js_trim (input_value v) = [] \<Longrightarrow> search_start v = (v, None)"
  by (simp add: search_start_def)

lemma search_start_query: "js_trim (input_value v) = q \<Longrightarrow> q \<noteq> [] \<Longrightarrow>
    search_start v = (show_results False (show_error None (show_loading True v))
              \<lparr>prompt_hidden := True, copy_note_shown := False, share_shown := False\<rparr>, Some q)"
  by (simp add: search_start_def)

lemma search_start_None: "search_start v = (v', None) \<Longrightarrow> v' = v"
  by (simp add: search_start_def Let_def split: if_splits)

lemma search_start_input [simp]: "input_value (fst (search_start v)) = input_value v"
  by (simp add: search_start_def Let_def view_defs)

lemma search_finish_no_results:
  "\<not> truthy_opt (ans_text a) \<Longrightarrow> ans_sources a = [] \<Longrightarrow>
   search_finish (Inr (Some a)) v =
     v\<lparr>error_text := ''No relevant results found for this specific query.'', error_shown := True,
       loader_shown := False\<rparr>"
  by (simp add: search_finish_def view_defs)

text \<open>
  C12. In every reachable state of the page, a visible loader means that some search is
  in flight.
\<close>

theorem reachable_loader_in_flight:
  "reachable_page p \<Longrightarrow> loader_shown (panel p) \<Longrightarrow> in_flight p \<noteq> []"
proof (induction rule: reachable_page.induct)
  case init
  then show ?case by (simp add: initial_page_def initial_view_def)
next
  case (step p p')
  from step.hyps(2) step.IH step.prems show ?case
    by (cases rule: search_step.cases) (auto dest: search_start_loader search_start_None)
qed

lemma reachable_typed: "reachable_page (typed_page s)"
  unfolding typed_page_def by (rule reachable_page.step [OF reachable_page.init search_step.edit])

lemma reachable_submitted:
  assumes "reachable_page p" and "js_trim (input_value (panel p)) \<noteq> []"
  shows "reachable_page (submitted_page p)"
proof -
  have "search_start (panel p) = (fst (search_start (panel p)), Some (js_trim (input_value (panel p))))"
    using assms(2) by (simp add: search_start_def)
  then show ?thesis
    unfolding submitted_page_def by (rule reachable_page.step [OF assms(1) search_step.submit])
qed

lemma reachable_settled:
  "reachable_page p \<Longrightarrow> i < length (in_flight p) \<Longrightarrow> reachable_page (settled_page net i p)"
  unfolding settled_page_def by (rule reachable_page.step, assumption, rule search_step.settle)

lemma submitted_page_simps [simp]:
  "input_value (panel (submitted_page p)) = input_value (panel p)"
  "in_flight (submitted_page p) = in_flight p @ [js_trim (input_value (panel p))]"
  by (simp_all add: submitted_page_def)

lemma loader_submitted: "js_trim (input_value (panel p)) \<noteq> [] \<Longrightarrow> loader_shown (panel (submitted_page p))"
  by (simp add: submitted_page_def search_start_def view_defs)

lemma typed_page_simps [simp]:
  "input_value (panel (typed_page s)) = s" "in_flight (typed_page s) = []"
  by (simp_all add: typed_page_def initial_page_def)

lemma js_trim_a [simp]: "js_trim ''a'' = ''a''"
  by (simp add: js_trim_def js_white_space_utf8_def strip_seqs.simps)

theorem reachable_loader_in_flight_witness:
  "reachable_page (submitted_page (typed_page ''a'')) \<and> loader_shown (panel (submitted_page (typed_page ''a'')))
   \<and> in_flight (submitted_page (typed_page ''a'')) \<noteq> []"
proof -
  have r: "reachable_page (submitted_page (typed_page ''a''))"
    by (rule reachable_submitted [OF reachable_typed]) simp
  have l: "loader_shown (panel (submitted_page (typed_page ''a'')))"
    by (rule loader_submitted) simp
  show ?thesis
    using r l reachable_loader_in_flight [OF r l] by simp
qed

text \<open>
  C13. The converse fails: with two overlapping searches, the loader is hidden as soon as
  the first one settles although the second is still in flight (each \<open>finally\<close> hides
  the loader unconditionally).
\<close>

theorem loader_hidden_while_in_flight:
  "\<exists>p. reachable_page p \<and> in_flight p \<noteq> [] \<and> \<not> loader_shown (panel p)"
proof -
  let ?p = "submitted_page (submitted_page (typed_page ''a''))"
  have r: "reachable_page ?p"
    by (intro reachable_submitted reachable_typed) simp_all
  then have "reachable_page (settled_page forbidden_net 0 ?p)"
    by (rule reachable_settled) simp
  moreover have "in_flight (settled_page forbidden_net 0 ?p) = [''a'']"
    and "\<not> loader_shown (panel (settled_page forbidden_net 0 ?p))"
    by (simp_all add: settled_page_def)
  ultimately show ?thesis by (intro exI [of _ "settled_page forbidden_net 0 ?p"]) simp
qed

text \<open>
  C11. A reply with no truthy text and no source makes the search show the "no results"
  error: the error box is shown with that message, the results stay hidden and the
  loader is hidden.
\<close>

theorem handle_search_no_results:
  assumes "js_trim (input_value v) = q" and "q \<noteq> []"
    and "snd (call_gemini_api net q) = Inr (Some a)" and "\<not> truthy_opt (ans_text a)" and "ans_sources a = []"
  shows "error_shown (fst (handle_search net v))
    \<and> error_text (fst (handle_search net v)) = ''No relevant results found for this specific query.''
    \<and> \<not> results_shown (fst (handle_search net v)) \<and> \<not> loader_shown (fst (handle_search net v))"
proof -
  obtain tr where c: "call_gemini_api net q = (tr, Inr (Some a))"
    using assms(3) by (cases "call_gemini_api net q") simp
  show ?thesis
    using assms(4,5) by (simp add: handle_search_def search_start_query [OF assms(1,2)] c
        search_finish_no_results view_defs)
qed

theorem handle_search_no_results_witness:
  "error_shown (fst (handle_search empty_net (initial_view\<lparr>input_value := '' phishing ''\<rparr>)))
    \<and> error_text (fst (handle_search empty_net (initial_view\<lparr>input_value := '' phishing ''\<rparr>)))
          = ''No relevant results found for this specific query.''
    \<and> \<not> results_shown (fst (handle_search empty_net (initial_view\<lparr>input_value := '' phishing ''\<rparr>)))
    \<and> \<not> loader_shown (fst (handle_search empty_net (initial_view\<lparr>input_value := '' phishing ''\<rparr>)))"
proof -
  have p: "json_parse (json_stringify empty_reply) = Some empty_reply"
    by code_simp
  have a: "process_api_response empty_reply = Inr \<lparr>ans_text = Some JNull, ans_sources = []\<rparr>"
    by (simp add: empty_reply_def normalizer_defs js_or_def)
  have c: "snd (call_gemini_api empty_net ''phishing'') = Inr (Some \<lparr>ans_text = Some JNull, ans_sources = []\<rparr>)"
    by (simp add: call_gemini_api_def empty_net_def numeral_3_eq_3 attempt_ok [OF _ p] a)
  have t: "js_trim (input_value (initial_view\<lparr>input_value := '' phishing ''\<rparr>)) = ''phishing''"
    by (simp add: js_trim_def js_white_space_utf8_def strip_seqs.simps)
  show ?thesis
    by (rule handle_search_no_results [OF t _ c]) simp_all
qed

end
