(* ===== verification/Share.thy ===== *)
theory Share
  imports SearchUI "HOL-Library.Sublist"
begin

text \<open>
  Sharing the results of a search (index.js part B.7 and B.8): the share button's
  \<open>onclick\<close> closure set by \<open>displayResults\<close> (lines 280--282), \<open>shareResults\<close>
  (lines 288--308) and \<open>copyToClipboard\<close> (lines 311--328). \<open>shareResults\<close> either hands
  a title, a text and a url to the Web Share API or copies a plain-text report to the
  clipboard; the outcome is the value \<open>share_action\<close>. The summary snippet is cut with
  \<open>substring(0, 200)\<close>, which counts UTF-16 code units; strings of the model are UTF-8
  bytes, so the cut is made on the code units the bytes encode.
\<close>

subsection \<open>String.prototype.substring on UTF-16 code units\<close>

text \<open>
  The UTF-16 code units a byte stands for: one for an ASCII byte and for the lead byte of
  a two- or three-byte sequence, none for a continuation byte, two for the lead byte of a
  four-byte sequence (a supplementary character, a surrogate pair in UTF-16). A lone
  surrogate, which \<open>JSON.parse\<close> produces from a \<open>\u\<close> escape, is the three bytes of its
  code unit, as the JSON theory encodes it.
\<close>

definition utf16_units :: "char \<Rightarrow> nat" where
  "utf16_units c =
     (let b = (of_char c :: nat) in
      if b < 0x80 then 1 else if b < 0xC0 then 0 else if b < 0xF0 then 1 else 2)"

definition utf16_length :: "string \<Rightarrow> nat" where
  "utf16_length s = sum_list (map utf16_units s)"

text \<open>The high surrogate of the supplementary character a four-byte sequence encodes.\<close>

fun lead_surrogate :: "string \<Rightarrow> string" where
  "lead_surrogate (b0 # b1 # b2 # b3 # _) =
     utf8 (0xD800 + ((((of_char b0 :: nat) mod 8) * 262144 + ((of_char b1 :: nat) mod 64) * 4096
                     + ((of_char b2 :: nat) mod 64) * 64 + (of_char b3 :: nat) mod 64 - 0x10000)
                     div 1024) mod 1024)"
| "lead_surrogate _ = []"

text \<open>
  \<open>s.substring(0, n)\<close>: the first \<open>n\<close> code units. A cut through a surrogate pair keeps
  its high surrogate alone.
\<close>

fun js_take_units :: "nat \<Rightarrow> string \<Rightarrow> string" where
  "js_take_units n [] = []"
| "js_take_units n (c # cs) =
     (if utf16_units c = 0 then c # js_take_units n cs
      else if utf16_units c \<le> n then c # js_take_units (n - utf16_units c) cs
      else if n = 0 then []
      else lead_surrogate (c # cs))"

subsection \<open>shareResults\<close>

datatype share_action =
    WebShare string string string
  | CopyText string

text \<open>One line of the sources section (line 293): \<open>[Source i+1] title: uri\<close>.\<close>

definition source_line :: "nat \<Rightarrow> source_ref \<Rightarrow> string" where
  "source_line i s =
     ''[Source '' @ string_of_nat (i + 1) @ ''] '' @ to_string_opt (src_title s) @ '': ''
     @ to_string_opt (src_uri s)"

definition sources_text :: "source_ref list \<Rightarrow> string" where
  "sources_text sources = join_with newline (map (\<lambda>(i, s). source_line i s) (enumerate 0 sources))"

text \<open>
  Line 291: a truthy summary is cut to 200 code units and followed by \<open>...\<close>; a
  truthy value that is not a string has no \<open>substring\<close> method and throws.
\<close>

definition summary_snippet :: "jsopt \<Rightarrow> js_error + string" where
  "summary_snippet summary =
     (if truthy_opt summary then
        (case summary of
          Some (JStr s) \<Rightarrow> Inr (js_take_units 200 s @ ''...'')
        | _ \<Rightarrow> Inl (TypeError ''summary.substring is not a function''))
      else Inr ''Check out this research'')"

text \<open>The report of line 294.\<close>

definition full_text_report :: "jsopt \<Rightarrow> source_ref list \<Rightarrow> string \<Rightarrow> string \<Rightarrow> string" where
  "full_text_report summary sources query href =
     ''Research on: '' @ CHR 0x22 # query @ CHR 0x22 # newline @ newline @ ''Research Summary:''
     @ newline @ to_string_opt (js_or summary (Some (JStr ''N/A''))) @ newline @ newline
     @ ''Grounded Sources:'' @ newline @ sources_text sources @ newline @ newline
     @ ''Found via Cybersecurity Factor Database: '' @ href"

text \<open>
  \<open>shareResults(summary, sources, query)\<close> with \<open>navigator.share\<close> present or not and
  the page's \<open>window.location.href\<close>. The text given to the Web Share API is the
  template \<open>`${summarySnippet}\n\More:`\<close>, in which \<open>\M\<close> is the letter \<open>M\<close>.
\<close>

definition share_results ::
  "bool \<Rightarrow> string \<Rightarrow> jsopt \<Rightarrow> source_ref list \<Rightarrow> string \<Rightarrow> js_error + share_action" where
  "share_results has_share href summary sources query =
     (case summary_snippet summary of
       Inl e \<Rightarrow> Inl e
     | Inr snippet \<Rightarrow>
         if has_share then Inr (WebShare (''Research: '' @ query) (snippet @ newline @ ''More:'') href)
         else Inr (CopyText (full_text_report summary sources query href)))"

text \<open>
  \<open>copyToClipboard(text)\<close> (lines 311--328) after a successful \<open>execCommand('copy')\<close>:
  the note is shown; its timer (\<open>copy_note_timeout\<close>) hides it 2000 ms later.
\<close>

definition copy_to_clipboard :: "search_view \<Rightarrow> search_view" where
  "copy_to_clipboard v = v\<lparr>copy_note_shown := True\<rparr>"

definition copy_note_timeout :: "search_view \<Rightarrow> search_view" where
  "copy_note_timeout v = v\<lparr>copy_note_shown := False\<rparr>"

text \<open>
  A click on the share button runs the closure of line 281 with the summary and the
  sources of the last \<open>displayResults\<close> and the input's value at the time of the click.
  Before any results there is no handler and the click does nothing.
\<close>

definition click_share :: "bool \<Rightarrow> string \<Rightarrow> search_view \<Rightarrow> search_view \<times> (js_error + share_action) option" where
  "click_share has_share href v =
     (case share_handler v of
       None \<Rightarrow> (v, None)
     | Some (summary, sources) \<Rightarrow>
         (case share_results has_share href summary sources (input_value v) of
           Inr (CopyText t) \<Rightarrow> (copy_to_clipboard v, Some (Inr (CopyText t)))
         | r \<Rightarrow> (v, Some r)))"

definition shared_view :: search_view where
  "shared_view = initial_view\<lparr>share_handler := Some (Some (JStr ''S''), [])\<rparr>"

definition example_source :: source_ref where
  "example_source = \<lparr>src_uri = Some (JStr ''https://a.example''), src_title = Some (JStr ''A'')\<rparr>"

subsection \<open>Lemmas on code units\<close>

lemma utf16_length_simps [simp]:
  "utf16_length [] = 0" "utf16_length (s @ t) = utf16_length s + utf16_length t"
  by (simp_all add: utf16_length_def)

lemma utf16_length_Cons: "utf16_length (c # s) = utf16_units c + utf16_length s"
  by (simp add: utf16_length_def)

lemma utf16_length_utf8_surrogate:
  assumes "0xD800 \<le> x" and "x < 0xDC00"
  shows "utf16_length (utf8 x) = 1"
proof -
  have "x div 4096 = 13" using assms by simp
  moreover have "x div 64 mod 64 < 64" "x mod 64 < 64" by simp_all
  ultimately show ?thesis
    using assms by (simp add: utf8_def utf16_units_def Let_def utf16_length_Cons of_char_of)
qed

lemma utf16_length_lead_surrogate: "utf16_length (lead_surrogate s) \<le> 1"
proof (cases s rule: lead_surrogate.cases)
  case (1 b0 b1 b2 b3 rest)
  define q where "q = ((((of_char b0 :: nat) mod 8) * 262144 + ((of_char b1 :: nat) mod 64) * 4096
                     + ((of_char b2 :: nat) mod 64) * 64 + (of_char b3 :: nat) mod 64 - 0x10000)
                     div 1024) mod 1024"
  have "q < 1024" by (simp add: q_def)
  then have "utf16_length (utf8 (0xD800 + q)) = 1"
    by (intro utf16_length_utf8_surrogate) simp_all
  then show ?thesis using 1 by (simp add: q_def)
qed simp_all

lemma utf16_length_js_take_units: "utf16_length (js_take_units n s) \<le> n"
proof (induction n s rule: js_take_units.induct)
  case (2 n c cs)
  then show ?case
    using utf16_length_lead_surrogate [of "c # cs"] by (auto simp: utf16_length_Cons)
qed simp

lemma js_take_units_all: "utf16_length s \<le> n \<Longrightarrow> js_take_units n s = s"
  by (induction n s rule: js_take_units.induct) (auto simp: utf16_length_Cons)

lemma js_take_units_ascii:
  "(of_char c :: nat) < 0x80 \<Longrightarrow> js_take_units n (replicate m c) = replicate (min n m) c"
proof (induction m arbitrary: n)
  case (Suc m)
  then show ?case by (cases n) (simp_all add: utf16_units_def)
qed simp

lemma map_enumerate_0: "map (\<lambda>(i, s). f i s) (enumerate 0 xs) = map (\<lambda>i. f i (xs ! i)) [0..<length xs]"
  by (rule nth_equalityI) (simp_all add: nth_enumerate_eq)

lemma newline_not_in_source_line:
  "CHR 0x0A \<notin> set (to_string_opt (src_title s)) \<Longrightarrow> CHR 0x0A \<notin> set (to_string_opt (src_uri s)) \<Longrightarrow>
   CHR 0x0A \<notin> set (source_line i s)"
  using string_of_nat_digits [of "Suc i"] by (auto simp: source_line_def list_all_iff is_digit_def)

lemma utf16_length_literals [simp]:
  "utf16_length ''...'' = 3" "utf16_length ''Check out this research'' = 23"
  "utf16_length ''More:'' = 5" "utf16_length newline = 1"
  by (simp_all add: utf16_length_def utf16_units_def newline_def)

lemma summary_snippet_length: "summary_snippet summary = Inr snip \<Longrightarrow> utf16_length snip \<le> 203"
proof (cases "truthy_opt summary")
  case True
  assume r: "summary_snippet summary = Inr snip"
  then obtain s where "summary = Some (JStr s)" and "snip = js_take_units 200 s @ ''...''"
    using True by (auto simp: summary_snippet_def split: option.splits jsval.splits)
  then show ?thesis using utf16_length_js_take_units [of 200 s] by simp
next
  case False
  assume "summary_snippet summary = Inr snip"
  then have "snip = ''Check out this research''" using False by (simp add: summary_snippet_def)
  then show ?thesis by simp
qed

text \<open>
  C17. The report copied by the share button names the input's value at the time of
  the click, not the query whose results it shares: after the user edits the input to
  \<open>q\<close>, the report starts \<open>Research on: "q"\<close> while its summary and sources are still
  those of the earlier search. The specification's share sink receives "the original
  query string".
\<close>

theorem share_report_after_edit:
  assumes "share_handler (panel p) = Some (summary, sources)" and "summary_snippet summary = Inr snip"
  shows "search_step p (p\<lparr>panel := (panel p)\<lparr>input_value := q\<rparr>\<rparr>)
         \<and> snd (click_share False href ((panel p)\<lparr>input_value := q\<rparr>))
             = Some (Inr (CopyText (full_text_report summary sources q href)))
         \<and> prefix (''Research on: '' @ CHR 0x22 # q @ [CHR 0x22]) (full_text_report summary sources q href)"
  using assms by (auto intro: search_step.edit simp: click_share_def share_results_def full_text_report_def)

text \<open>
  C18. When no title or uri contains a line feed, splitting the sources section of the
  report at line feeds gives back one line per source, in order, the i-th being
  \<open>[Source i+1] title: uri\<close>.
\<close>

theorem sources_text_lines:
  assumes "sources \<noteq> []"
    and "\<forall>s \<in> set sources. CHR 0x0A \<notin> set (to_string_opt (src_title s)) \<and> CHR 0x0A \<notin> set (to_string_opt (src_uri s))"
  shows "js_split (CHR 0x0A) (sources_text sources) =
    map (\<lambda>i. ''[Source '' @ string_of_nat (Suc i) @ ''] '' @ to_string_opt (src_title (sources ! i))
              @ '': '' @ to_string_opt (src_uri (sources ! i))) [0..<length sources]"
proof -
  have "CHR 0x0A \<notin> set (source_line i (sources ! i))" if "i < length sources" for i
    using assms(2) nth_mem [OF that] by (intro newline_not_in_source_line) auto
  then have "\<forall>x \<in> set (map (\<lambda>i. source_line i (sources ! i)) [0..<length sources]). CHR 0x0A \<notin> set x"
    by auto
  then show ?thesis
    using assms(1) by (simp add: sources_text_def newline_def map_enumerate_0 js_split_join_with)
      (simp add: source_line_def)
qed

text \<open>
  C19. The text handed to the Web Share API is at most 209 UTF-16 code units: at most
  200 of the summary, the ellipsis, a line feed and \<open>More:\<close>; its title is
  \<open>Research: \<close> and the query, its url the page's.
\<close>

theorem share_results_web_share_bound:
  "share_results True href summary sources q = Inr (WebShare t txt u) \<Longrightarrow>
   utf16_length txt \<le> 209 \<and> t = ''Research: '' @ q \<and> u = href"
  using summary_snippet_length [of summary]
  by (auto simp: share_results_def split: sum.splits if_splits)

text \<open>
  C20. A truthy summary that is not a string (the service may send any JSON value as the
  part's \<open>text\<close>, which \<open>displayResults\<close> prints) makes \<open>shareResults\<close> throw a
  TypeError on \<open>summary.substring\<close>, with or without the Web Share API: the share
  button then does nothing.
\<close>

theorem share_results_non_string_summary:
  "truthy_opt summary \<Longrightarrow> (\<forall>s. summary \<noteq> Some (JStr s)) \<Longrightarrow>
   share_results b href summary sources q = Inl (TypeError ''summary.substring is not a function'')"
  by (auto simp: share_results_def summary_snippet_def split: option.splits jsval.splits)

subsection \<open>Witnesses\<close>

theorem share_report_after_edit_witness:
  "snd (click_share False ''h'' ((panel \<lparr>panel = shared_view, in_flight = []\<rparr>)\<lparr>input_value := ''b''\<rparr>))
     = Some (Inr (CopyText (full_text_report (Some (JStr ''S'')) [] ''b'' ''h'')))"
  using share_report_after_edit [of "\<lparr>panel = shared_view, in_flight = []\<rparr>" "Some (JStr ''S'')" "[]"
      "''S...''" "''b''" "''h''"]
  by (simp add: shared_view_def initial_view_def summary_snippet_def utf16_units_def)

theorem sources_text_lines_witness:
  "js_split (CHR 0x0A) (sources_text [example_source, example_source])
     = [''[Source 1] A: https://a.example'', ''[Source 2] A: https://a.example'']"
  using sources_text_lines [of "[example_source, example_source]"]
  by (simp add: example_source_def source_line_def to_string_opt_def digit_char_def)

theorem share_results_web_share_bound_witness:
  "share_results True ''h'' (Some (JStr (replicate 250 CHR ''a''))) [] ''q''
     = Inr (WebShare ''Research: q'' (replicate 200 CHR ''a'' @ ''...'' @ newline @ ''More:'') ''h'')
   \<and> utf16_length (replicate 200 CHR ''a'' @ ''...'' @ newline @ ''More:'') \<le> 209"
proof -
  have r: "share_results True ''h'' (Some (JStr (replicate 250 CHR ''a''))) [] ''q''
     = Inr (WebShare ''Research: q'' (replicate 200 CHR ''a'' @ ''...'' @ newline @ ''More:'') ''h'')"
    by (simp add: share_results_def summary_snippet_def js_take_units_ascii)
  show ?thesis
    by (rule conjI [OF r]) (rule conjunct1 [OF share_results_web_share_bound [OF r]])
qed

theorem share_results_non_string_summary_witness:
  "share_results False ''h'' (Some (JNum 5 0)) [] ''q'' = Inl (TypeError ''summary.substring is not a function'')"
  using share_results_non_string_summary [of "Some (JNum 5 0)" False "''h''" "[]" "''q''"] by simp

end
