(* ===== verification/Dataset.thy ===== *)
theory Dataset
  imports Prelude "HOL-Library.Multiset"
begin

text \<open>
  The internal database (index.js part A): the table \<open>sourceData\<close> (lines 5--28), its
  sort by name with \<open>localeCompare\<close> and the drop-down built from it
  (\<open>initializeInternalApp\<close>, \<open>populateDropdown\<close>, lines 42--59), and the lookup that
  shows the selected factor's percentage and enables the "Learn More" button
  (\<open>findPercentage\<close>, lines 62--82). The table is the global array the code sorts in
  place; the page's elements are a view-model record.

  \<open>String.prototype.localeCompare\<close> is the platform's collation (ICU's root collation in
  browsers). It is modelled by \<open>locale_compare\<close>: letters compared without case, other
  characters by code, and case only as a tie-break with lower case first. On the names of
  this table, which all differ in a letter position before any other difference, this
  order agrees with the root collation. \<open>Array.prototype.sort\<close> is stable, as insertion
  sort is.
\<close>

subsection \<open>Definitions\<close>

record factor_record =
  factor_name :: string
  percentage :: nat

definition source_data :: "factor_record list" where
  "source_data = [
     \<lparr>factor_name = ''Multiple/unknown'', percentage = 60\<rparr>,
     \<lparr>factor_name = ''Authority'', percentage = 59\<rparr>,
     \<lparr>factor_name = ''Credibility'', percentage = 48\<rparr>,
     \<lparr>factor_name = ''Familiarity'', percentage = 43\<rparr>,
     \<lparr>factor_name = ''Following business'', percentage = 28\<rparr>,
     \<lparr>factor_name = ''Fear/Loss Aversion'', percentage = 24\<rparr>,
     \<lparr>factor_name = ''Legitimacy'', percentage = 19\<rparr>,
     \<lparr>factor_name = ''Curiosity'', percentage = 16\<rparr>,
     \<lparr>factor_name = ''Attraction'', percentage = 11\<rparr>,
     \<lparr>factor_name = ''Urgency'', percentage = 11\<rparr>,
     \<lparr>factor_name = ''Reverse SE'', percentage = 11\<rparr>,
     \<lparr>factor_name = ''Intimidation'', percentage = 10\<rparr>,
     \<lparr>factor_name = ''Liking'', percentage = 8\<rparr>,
     \<lparr>factor_name = ''Building rapport'', percentage = 7\<rparr>,
     \<lparr>factor_name = ''Reciprocity'', percentage = 7\<rparr>,
     \<lparr>factor_name = ''Expertise'', percentage = 7\<rparr>,
     \<lparr>factor_name = ''Greed'', percentage = 6\<rparr>,
     \<lparr>factor_name = ''Desire to help'', percentage = 6\<rparr>,
     \<lparr>factor_name = ''SSO, Data, Finance'', percentage = 5\<rparr>,
     \<lparr>factor_name = ''Opportunity'', percentage = 4\<rparr>,
     \<lparr>factor_name = ''Consistency'', percentage = 4\<rparr>,
     \<lparr>factor_name = ''Utility'', percentage = 4\<rparr>]"

text \<open>Lexicographic comparison by character code, as a comparator's sign.\<close>

fun lex_cmp :: "string \<Rightarrow> string \<Rightarrow> int" where
  "lex_cmp [] [] = 0"
| "lex_cmp [] (b # ys) = -1"
| "lex_cmp (a # xs) [] = 1"
| "lex_cmp (a # xs) (b # ys) =
     (if (of_char a :: nat) < of_char b then -1 else if (of_char b :: nat) < of_char a then 1 else lex_cmp xs ys)"

definition lower_char :: "char \<Rightarrow> char" where
  "lower_char c = (if 65 \<le> (of_char c :: nat) \<and> (of_char c :: nat) \<le> 90 then char_of (of_char c + (32 :: nat)) else c)"

definition locale_compare :: "string \<Rightarrow> string \<Rightarrow> int" where
  "locale_compare a b =
     (let p = lex_cmp (map lower_char a) (map lower_char b) in if p \<noteq> 0 then p else - lex_cmp a b)"

text \<open>\<open>Array.prototype.sort(cmp)\<close>: the stable sort by the comparator.\<close>

fun insort_cmp :: "('a \<Rightarrow> 'a \<Rightarrow> int) \<Rightarrow> 'a \<Rightarrow> 'a list \<Rightarrow> 'a list" where
  "insort_cmp cmp x [] = [x]"
| "insort_cmp cmp x (y # ys) = (if cmp x y \<le> 0 then x # y # ys else y # insort_cmp cmp x ys)"

fun sort_cmp :: "('a \<Rightarrow> 'a \<Rightarrow> int) \<Rightarrow> 'a list \<Rightarrow> 'a list" where
  "sort_cmp cmp [] = []"
| "sort_cmp cmp (x # xs) = insort_cmp cmp x (sort_cmp cmp xs)"

text \<open>The comparator of line 44.\<close>

definition factor_cmp :: "factor_record \<Rightarrow> factor_record \<Rightarrow> int" where
  "factor_cmp a b = locale_compare (factor_name a) (factor_name b)"

text \<open>The elements of part A that the code writes.\<close>

record lookup_view =
  selected :: string
  options :: "(string \<times> string) list"
  placeholder_shown :: bool
  value_shown :: bool
  label_shown :: bool
  value_text :: string
  learn_more_disabled :: bool

text \<open>
  \<open>populateDropdown()\<close> (lines 51--59): the placeholder option, then one option per
  row with the name as value and text; resetting \<open>innerHTML\<close> selects the first option.
\<close>

definition populate_dropdown :: "factor_record list \<Rightarrow> lookup_view \<Rightarrow> lookup_view" where
  "populate_dropdown data v =
     v\<lparr>options := (''default'', ''Select a factor...'') # map (\<lambda>r. (factor_name r, factor_name r)) data,
       selected := ''default''\<rparr>"

text \<open>
  \<open>initializeInternalApp()\<close> (lines 42--48): the array is sorted in place and the
  drop-down filled; the listeners it registers are the events below.
\<close>

definition initialize_internal_app :: "factor_record list \<Rightarrow> lookup_view \<Rightarrow> factor_record list \<times> lookup_view" where
  "initialize_internal_app data v =
     (let sorted = sort_cmp factor_cmp data in (sorted, populate_dropdown sorted v))"

text \<open>\<open>findPercentage()\<close> (lines 62--82), run on the \<open>change\<close> of the drop-down.\<close>

definition find_percentage :: "factor_record list \<Rightarrow> lookup_view \<Rightarrow> lookup_view" where
  "find_percentage data v =
     (let v1 = v\<lparr>placeholder_shown := False, value_shown := False, label_shown := False\<rparr> in
      if selected v = ''default'' then v1\<lparr>placeholder_shown := True, learn_more_disabled := True\<rparr>
      else
        (let v2 = v1\<lparr>learn_more_disabled := False\<rparr> in
         case find (\<lambda>row. factor_name row = selected v) data of
           None \<Rightarrow> v2
         | Some m \<Rightarrow> v2\<lparr>value_text := string_of_nat (percentage m) @ ''%'', value_shown := True,
                         label_shown := True\<rparr>))"

text \<open>The user picks the option with value \<open>val\<close>: the \<open>change\<close> event.\<close>

definition select_factor :: "factor_record list \<Rightarrow> string \<Rightarrow> lookup_view \<Rightarrow> lookup_view" where
  "select_factor data val v = find_percentage data (v\<lparr>selected := val\<rparr>)"

text \<open>The lookup panel before initialisation (the placeholder shown, the button disabled).\<close>

definition initial_lookup :: lookup_view where
  "initial_lookup =
     \<lparr>selected = ''default'', options = [], placeholder_shown = True, value_shown = False,
      label_shown = False, value_text = [], learn_more_disabled = True\<rparr>"

subsection \<open>Lemmas\<close>

lemma mset_insort_cmp [simp]: "mset (insort_cmp cmp x xs) = add_mset x (mset xs)"
  by (induction xs) auto

lemma mset_sort_cmp [simp]: "mset (sort_cmp cmp xs) = mset xs"
  by (induction xs) auto

lemma set_sort_cmp [simp]: "set (sort_cmp cmp xs) = set xs"
  by (metis mset_sort_cmp set_mset_mset)

lemma distinct_map_sort_cmp: "distinct (map f (sort_cmp cmp xs)) \<longleftrightarrow> distinct (map f xs)"
  by (metis distinct_map mset_sort_cmp mset_eq_imp_distinct_iff set_mset_mset inj_on_def)

lemma find_distinct_name:
  "distinct (map f xs) \<Longrightarrow> x \<in> set xs \<Longrightarrow> find (\<lambda>r. f r = f x) xs = Some x"
  by (induction xs) (auto simp: find_Some_iff)

lemma source_data_facts:
  "distinct (map factor_name source_data)" "''default'' \<notin> factor_name ` set source_data"
  "list_all (\<lambda>r. percentage r \<le> 100) source_data"
  by (simp_all add: source_data_def)

lemma sorted_source_data:
  "map factor_name (sort_cmp factor_cmp source_data) =
     [''Attraction'', ''Authority'', ''Building rapport'', ''Consistency'', ''Credibility'',
      ''Curiosity'', ''Desire to help'', ''Expertise'', ''Familiarity'', ''Fear/Loss Aversion'',
      ''Following business'', ''Greed'', ''Intimidation'', ''Legitimacy'', ''Liking'',
      ''Multiple/unknown'', ''Opportunity'', ''Reciprocity'', ''Reverse SE'', ''SSO, Data, Finance'',
      ''Urgency'', ''Utility'']"
  by (simp add: source_data_def factor_cmp_def locale_compare_def lower_char_def)

text \<open>
  C14. After initialisation the drop-down lists the placeholder and then the 22 factor
  names in alphabetical order.
\<close>

theorem dropdown_options_sorted:
  "map fst (options (snd (initialize_internal_app source_data v))) =
     ''default'' # [''Attraction'', ''Authority'', ''Building rapport'', ''Consistency'', ''Credibility'',
      ''Curiosity'', ''Desire to help'', ''Expertise'', ''Familiarity'', ''Fear/Loss Aversion'',
      ''Following business'', ''Greed'', ''Intimidation'', ''Legitimacy'', ''Liking'',
      ''Multiple/unknown'', ''Opportunity'', ''Reciprocity'', ''Reverse SE'', ''SSO, Data, Finance'',
      ''Urgency'', ''Utility'']"
  by (simp add: initialize_internal_app_def Let_def populate_dropdown_def comp_def sorted_source_data)

text \<open>
  C15. Choosing any factor of the drop-down shows that factor's percentage followed by
  "%", shows the value and its label, hides the placeholder and enables "Learn More".
\<close>

theorem select_option_shows_percentage:
  assumes "initialize_internal_app source_data v0 = (data, v)" and "(val, txt) \<in> set (tl (options v))"
  shows "\<exists>r \<in> set source_data. factor_name r = val
    \<and> value_text (select_factor data val v) = string_of_nat (percentage r) @ ''%''
    \<and> value_shown (select_factor data val v) \<and> label_shown (select_factor data val v)
    \<and> \<not> placeholder_shown (select_factor data val v) \<and> \<not> learn_more_disabled (select_factor data val v)"
proof -
  have data: "data = sort_cmp factor_cmp source_data" and v: "v = populate_dropdown data v0"
    using assms(1) by (auto simp: initialize_internal_app_def Let_def)
  from assms(2) obtain r where r: "r \<in> set source_data" and val: "val = factor_name r"
    by (auto simp: v populate_dropdown_def data)
  have "val \<noteq> ''default''"
    using r val source_data_facts(2) by (metis image_eqI)
  moreover have "find (\<lambda>row. factor_name row = factor_name r) data = Some r"
    using r source_data_facts(1) by (simp add: data find_distinct_name distinct_map_sort_cmp)
  ultimately show ?thesis
    using r val by (intro bexI [OF _ r]) (simp add: select_factor_def find_percentage_def)
qed

theorem select_option_shows_percentage_witness:
  "\<exists>r \<in> set source_data. factor_name r = ''Urgency''
    \<and> value_text (select_factor (fst (initialize_internal_app source_data initial_lookup)) ''Urgency''
                     (snd (initialize_internal_app source_data initial_lookup))) = string_of_nat (percentage r) @ ''%''
    \<and> value_shown (select_factor (fst (initialize_internal_app source_data initial_lookup)) ''Urgency''
                     (snd (initialize_internal_app source_data initial_lookup)))
    \<and> label_shown (select_factor (fst (initialize_internal_app source_data initial_lookup)) ''Urgency''
                     (snd (initialize_internal_app source_data initial_lookup)))
    \<and> \<not> placeholder_shown (select_factor (fst (initialize_internal_app source_data initial_lookup)) ''Urgency''
                     (snd (initialize_internal_app source_data initial_lookup)))
    \<and> \<not> learn_more_disabled (select_factor (fst (initialize_internal_app source_data initial_lookup)) ''Urgency''
                     (snd (initialize_internal_app source_data initial_lookup)))"
proof -
  have "(''Urgency'', ''Urgency'') \<in> set (tl (options (snd (initialize_internal_app source_data initial_lookup))))"
  proof -
    have "''Urgency'' \<in> set (map factor_name (sort_cmp factor_cmp source_data))"
      by (simp only: sorted_source_data) simp
    then show ?thesis
      by (auto simp: initialize_internal_app_def Let_def populate_dropdown_def)
  qed
  then show ?thesis
    by (rule select_option_shows_percentage [OF prod.collapse [symmetric]])
qed

text \<open>
  C16. Choosing the placeholder option shows the placeholder, hides the value and
  disables "Learn More".
\<close>

theorem select_default_disables_learn_more:
  "placeholder_shown (select_factor data ''default'' v) \<and> \<not> value_shown (select_factor data ''default'' v)
   \<and> \<not> label_shown (select_factor data ''default'' v) \<and> learn_more_disabled (select_factor data ''default'' v)"
  by (simp add: select_factor_def find_percentage_def)

end
