(* ===== verification/Details.thy ===== *)
theory Details
  imports Services Dataset
begin

text \<open>
  The Learn More modal (index.js part C): \<open>openModal\<close> (lines 377--393),
  \<open>closeModal\<close> (396--402) and \<open>handleLearnMore\<close> (405--436), which calls
  \<open>callGeminiForDetails\<close> and writes the reply into the modal as HTML. The modal's
  elements are a view-model record. \<open>handleLearnMore\<close> is split at its \<open>await\<close>: the
  modal opens and a request for the selected factor goes out; when it settles the reply
  is rendered or the error shown, and the loader hidden. The animations of the two
  functions are \<open>setTimeout\<close> callbacks; the page of parts A and C is therefore a record
  with a clock and the pending timers, and \<open>app_step\<close> the step relation of its events:
  choosing an option, clicking Learn More, closing the modal, a pending request
  settling, and time passing (\<open>time_step\<close>: the clock advancing up to the next
  deadline, or a due timer firing, in the order of the deadlines).
\<close>

subsection \<open>The modal\<close>

record modal_view =
  modal_title :: string
  modal_content :: string
  modal_error_shown :: bool
  modal_error_text :: string
  modal_loader_shown :: bool
  modal_hidden :: bool
  modal_faded :: bool

text \<open>The modal as the page loads: hidden, faded out and empty.\<close>

definition initial_modal :: modal_view where
  "initial_modal =
     \<lparr>modal_title = [], modal_content = [], modal_error_shown = False, modal_error_text = [],
      modal_loader_shown = False, modal_hidden = True, modal_faded = True\<rparr>"

text \<open>The two timer callbacks: the fade-in of \<open>openModal\<close> and the hiding of \<open>closeModal\<close>.\<close>

datatype modal_timer = FadeIn | HideModal

fun run_timer :: "modal_timer \<Rightarrow> modal_view \<Rightarrow> modal_view" where
  "run_timer FadeIn m = m\<lparr>modal_faded := False\<rparr>"
| "run_timer HideModal m = m\<lparr>modal_hidden := True\<rparr>"

text \<open>
  \<open>openModal()\<close> with the select's value: nothing for the placeholder; otherwise the
  title, an empty content, the error hidden, the loader and the modal shown, and a
  fade-in 10 ms later. The result carries the timers it sets, with their delays.
\<close>

definition open_modal :: "string \<Rightarrow> modal_view \<Rightarrow> modal_view \<times> (nat \<times> modal_timer) list" where
  "open_modal factor m =
     (if factor = ''default'' then (m, [])
      else (m\<lparr>modal_title := factor, modal_content := [], modal_error_shown := False,
              modal_loader_shown := True, modal_hidden := False\<rparr>, [(10, FadeIn)]))"

text \<open>\<open>closeModal()\<close>: faded at once, hidden 250 ms later.\<close>

definition close_modal :: "modal_view \<Rightarrow> modal_view \<times> (nat \<times> modal_timer) list" where
  "close_modal m = (m\<lparr>modal_faded := True\<rparr>, [(250, HideModal)])"

subsection \<open>Rendering the reply\<close>

text \<open>The literal parts of the template of lines 414--425, character for character.\<close>

definition html_head :: string where
  \<open>html_head = join_with newline [
     [],
     ''                    <h4 class="text-xl font-bold text-slate-800 mb-2">Definition</h4>'',
     ''                    <p class="text-slate-700 mb-5">'']\<close>

definition html_mid :: string where
  \<open>html_mid = join_with newline [
     ''</p>'',
     ''                    '',
     ''                    <h4 class="text-xl font-bold text-slate-800 mb-2">Example Attack Scenario</h4>'',
     ''                    <pre class="bg-slate-100 p-4 rounded-lg text-slate-800 whitespace-pre-wrap font-sans mb-5">'']\<close>

definition html_tips :: string where
  \<open>html_tips = join_with newline [
     ''</pre>'',
     ''                    '',
     ''                    <h4 class="text-xl font-bold text-slate-800 mb-2">Defense Tips</h4>'',
     ''                    <ul class="list-disc list-inside text-slate-700 space-y-2">'',
     ''                        '']\<close>

definition html_tail :: string where
  \<open>html_tail = join_with newline [[], ''                    </ul>'', ''                '']\<close>

text \<open>
  \<open>details.defense_tips.map(tip => `<li>${tip}</li>`).join('')\<close>: a TypeError on
  undefined or null, and on any value that is not an array (it has no \<open>map\<close> method);
  each tip is converted by ToString.
\<close>

definition render_tips :: "jsopt \<Rightarrow> js_error + string" where
  "render_tips tips =
     (case member tips ''map'' of
       Inl e \<Rightarrow> Inl e
     | Inr _ \<Rightarrow>
         (case tips of
           Some (JArr xs) \<Rightarrow> Inr (concat (map (\<lambda>t. ''<li>'' @ js_to_string t @ ''</li>'') xs))
         | _ \<Rightarrow> Inl (TypeError ''details.defense_tips.map is not a function'')))"

text \<open>The template with its three substitutions, evaluated left to right.\<close>

definition render_details :: "jsopt \<Rightarrow> js_error + string" where
  "render_details details =
     (case member details ''definition'' of
       Inl e \<Rightarrow> Inl e
     | Inr definition \<Rightarrow>
         (case member details ''example'' of
           Inl e \<Rightarrow> Inl e
         | Inr example \<Rightarrow>
             (case member details ''defense_tips'' of
               Inl e \<Rightarrow> Inl e
             | Inr tips \<Rightarrow>
                 (case render_tips tips of
                   Inl e \<Rightarrow> Inl e
                 | Inr items \<Rightarrow>
                     Inr (html_head @ to_string_opt definition @ html_mid @ to_string_opt example
                          @ html_tips @ items @ html_tail)))))"

text \<open>The \<open>catch\<close> block (lines 428--431).\<close>

definition show_modal_error :: "js_error \<Rightarrow> modal_view \<Rightarrow> modal_view" where
  "show_modal_error e m =
     m\<lparr>modal_error_text := ''Failed to generate insights: '' @ err_message e, modal_error_shown := True\<rparr>"

text \<open>
  Lines 411--435 once \<open>callGeminiForDetails\<close> has settled with \<open>out\<close>: the reply is
  rendered into the content, or the error shown; the \<open>finally\<close> hides the loader. A
  result of \<open>undefined\<close> throws on \<open>details.definition\<close>.
\<close>

definition learn_finish :: "js_error + jsval option \<Rightarrow> modal_view \<Rightarrow> modal_view" where
  "learn_finish out m =
     (case out of
       Inr details \<Rightarrow>
         (case render_details details of
           Inr html \<Rightarrow> m\<lparr>modal_content := html\<rparr>
         | Inl e \<Rightarrow> show_modal_error e m)
     | Inl e \<Rightarrow> show_modal_error e m)\<lparr>modal_loader_shown := False\<rparr>"

text \<open>
  One whole \<open>handleLearnMore()\<close> with no other event while it is in flight: the modal
  opened for the select's value, the request for that same value, the reply rendered.
  The request is sent even when \<open>openModal\<close> returned early on the placeholder.
\<close>

definition handle_learn_more ::
  "(nat \<Rightarrow> fetch_result) \<Rightarrow> string \<Rightarrow> modal_view \<Rightarrow> modal_view \<times> event list" where
  "handle_learn_more net factor m =
     (case call_gemini_for_details net factor of
       (tr, out) \<Rightarrow> (learn_finish out (fst (open_modal factor m)), tr))"

subsection \<open>The page of parts A and C with its timers\<close>

record app =
  app_lookup :: lookup_view
  app_table :: "factor_record list"
  app_modal :: modal_view
  app_requests :: "string list"
  app_clock :: nat
  app_timers :: "(nat \<times> modal_timer) list"

text \<open>After \<open>initializeInternalApp()\<close>: the sorted table and its drop-down.\<close>

definition initial_app :: app where
  "initial_app =
     \<lparr>app_lookup = snd (initialize_internal_app source_data initial_lookup),
      app_table = fst (initialize_internal_app source_data initial_lookup),
      app_modal = initial_modal, app_requests = [], app_clock = 0, app_timers = []\<rparr>"

text \<open>\<open>setTimeout\<close>: the timers are kept in the order they were set, with their deadlines.\<close>

definition schedule :: "nat \<Rightarrow> (nat \<times> modal_timer) list \<Rightarrow> (nat \<times> modal_timer) list \<Rightarrow> (nat \<times> modal_timer) list" where
  "schedule now ts new = ts @ map (\<lambda>(d, k). (now + d, k)) new"

text \<open>
  Time passing: the clock advances, never past a pending deadline, or the first timer set
  among those due fires.
\<close>

inductive time_step :: "app \<Rightarrow> app \<Rightarrow> bool" where
  advance: "0 < d \<Longrightarrow> \<forall>(t, k) \<in> set (app_timers a). app_clock a + d \<le> t \<Longrightarrow>
    time_step a (a\<lparr>app_clock := app_clock a + d\<rparr>)"
| fire: "app_timers a = xs @ (t, k) # ys \<Longrightarrow> t \<le> app_clock a \<Longrightarrow>
    \<forall>(t', k') \<in> set xs. app_clock a < t' \<Longrightarrow>
    time_step a (a\<lparr>app_modal := run_timer k (app_modal a), app_timers := xs @ ys\<rparr>)"

text \<open>
  The events of the page. The user picks one of the drop-down's options, clicks the
  enabled Learn More button, or clicks the close button or the overlay; any pending
  request may settle with the outcome some network gives it; time passes. Which controls
  the modal's overlay covers is a matter of the page's HTML and CSS, which are not under
  src/: every control is available at every moment.
\<close>

inductive app_step :: "app \<Rightarrow> app \<Rightarrow> bool" where
  select: "val \<in> set (map fst (options (app_lookup a))) \<Longrightarrow>
    app_step a (a\<lparr>app_lookup := select_factor (app_table a) val (app_lookup a)\<rparr>)"
| learn_more: "\<not> learn_more_disabled (app_lookup a) \<Longrightarrow>
    open_modal (selected (app_lookup a)) (app_modal a) = (m, ts) \<Longrightarrow>
    app_step a (a\<lparr>app_modal := m, app_requests := app_requests a @ [selected (app_lookup a)],
                  app_timers := schedule (app_clock a) (app_timers a) ts\<rparr>)"
| close: "close_modal (app_modal a) = (m, ts) \<Longrightarrow>
    app_step a (a\<lparr>app_modal := m, app_timers := schedule (app_clock a) (app_timers a) ts\<rparr>)"
| settle: "i < length (app_requests a) \<Longrightarrow>
    app_step a (a\<lparr>app_modal := learn_finish (snd (call_gemini_for_details net (app_requests a ! i))) (app_modal a),
                  app_requests := take i (app_requests a) @ drop (Suc i) (app_requests a)\<rparr>)"
| tick: "time_step a a' \<Longrightarrow> app_step a a'"

inductive reachable_app :: "app \<Rightarrow> bool" where
  init: "reachable_app initial_app"
| step: "reachable_app a \<Longrightarrow> app_step a a' \<Longrightarrow> reachable_app a'"

definition factor_names :: "string set" where
  "factor_names = factor_name ` set source_data"

text \<open>
  The invariant of the page: the table and the options are those of the initialisation,
  the Learn More button is enabled only on a factor of the table, and every request in
  flight is for such a factor.
\<close>

definition app_inv :: "app \<Rightarrow> bool" where
  "app_inv a \<longleftrightarrow>
     app_table a = app_table initial_app \<and> options (app_lookup a) = options (app_lookup initial_app)
     \<and> (\<not> learn_more_disabled (app_lookup a) \<longrightarrow> selected (app_lookup a) \<in> factor_names)
     \<and> set (app_requests a) \<subseteq> factor_names"

subsection \<open>Runs\<close>

text \<open>
  One event each, as functions, to write down runs of the page; the lemmas below show
  that each is a step of \<open>app_step\<close> or \<open>time_step\<close> under the rule's condition.
\<close>

definition do_select :: "string \<Rightarrow> app \<Rightarrow> app" where
  "do_select val a = a\<lparr>app_lookup := select_factor (app_table a) val (app_lookup a)\<rparr>"

definition do_learn :: "app \<Rightarrow> app" where
  "do_learn a = (case open_modal (selected (app_lookup a)) (app_modal a) of (m, ts) \<Rightarrow>
     a\<lparr>app_modal := m, app_requests := app_requests a @ [selected (app_lookup a)],
       app_timers := schedule (app_clock a) (app_timers a) ts\<rparr>)"



definition do_advance :: "nat \<Rightarrow> app \<Rightarrow> app" where
  "do_advance d a = a\<lparr>app_clock := app_clock a + d\<rparr>"

definition do_fire :: "nat \<Rightarrow> app \<Rightarrow> app" where
  "do_fire i a = a\<lparr>app_modal := run_timer (snd (app_timers a ! i)) (app_modal a),
                   app_timers := take i (app_timers a) @ drop (Suc i) (app_timers a)\<rparr>"

text \<open>Networks that answer every call with the same structured reply, or not at all.\<close>

definition urgency_net :: "nat \<Rightarrow> fetch_result" where
  "urgency_net = details_net (json_stringify urgency_details)"

definition tipless_details :: jsval where
  "tipless_details = JObj [(''definition'', JStr ''d''), (''example'', JStr ''e'')]"

definition offline_net :: "nat \<Rightarrow> fetch_result" where
  "offline_net k = NetworkError"

subsection \<open>Lemmas\<close>

lemma select_factor_simps [simp]:
  "selected (select_factor d val v) = val"
  "learn_more_disabled (select_factor d val v) = (val = ''default'')"
  "options (select_factor d val v) = options v"
  by (simp_all add: select_factor_def find_percentage_def Let_def split: option.split)

lemma initial_app_simps [simp]:
  "learn_more_disabled (app_lookup initial_app)" "app_requests initial_app = []"
  "app_modal initial_app = initial_modal" "app_clock initial_app = 0" "app_timers initial_app = []"
  by (simp_all add: initial_app_def initialize_internal_app_def Let_def populate_dropdown_def initial_lookup_def)

lemma initial_options:
  "set (map fst (options (app_lookup initial_app))) = insert ''default'' factor_names"
  by (auto simp: initial_app_def initialize_internal_app_def Let_def populate_dropdown_def factor_names_def)

lemma factor_names_simps [simp]: "''Urgency'' \<in> factor_names" "''Authority'' \<in> factor_names"
  by (simp_all add: factor_names_def source_data_def)

lemma set_take_drop_subset: "set (take i xs @ drop (Suc i) xs) \<subseteq> set xs"
  by (metis Un_subset_iff set_append set_drop_subset set_take_subset set_drop_subset_set_drop
      Suc_n_not_le_n le_cases order_trans)

subsubsection \<open>The invariant\<close>

lemma app_inv_initial: "app_inv initial_app"
  by (simp add: app_inv_def)

lemma app_inv_time_step: "time_step a a' \<Longrightarrow> app_inv a \<Longrightarrow> app_inv a'"
  by (cases rule: time_step.cases) (auto simp: app_inv_def)

lemma app_inv_step: "app_step a a' \<Longrightarrow> app_inv a \<Longrightarrow> app_inv a'"
proof (induction rule: app_step.induct)
  case (select val a)
  then show ?case using initial_options by (auto simp: app_inv_def)
next
  case (settle i a net)
  then show ?case using set_take_drop_subset [of i "app_requests a"] by (auto simp: app_inv_def)
next
  case (tick a a')
  then show ?case by (rule app_inv_time_step)
qed (auto simp: app_inv_def)

lemma reachable_app_inv: "reachable_app a \<Longrightarrow> app_inv a"
  by (induction rule: reachable_app.induct) (auto intro: app_inv_initial app_inv_step)

subsubsection \<open>Steps of runs\<close>

lemma reachable_select:
  assumes r: "reachable_app a" and v: "val \<in> insert ''default'' factor_names"
  shows "reachable_app (do_select val a)"
proof -
  have "val \<in> set (map fst (options (app_lookup a)))"
    using reachable_app_inv [OF r] initial_options v by (simp add: app_inv_def)
  then show ?thesis
    unfolding do_select_def by (rule reachable_app.step [OF r app_step.select])
qed

lemma reachable_learn:
  "reachable_app a \<Longrightarrow> \<not> learn_more_disabled (app_lookup a) \<Longrightarrow> reachable_app (do_learn a)"
  by (auto simp: do_learn_def split: prod.split intro!: reachable_app.step [OF _ app_step.learn_more])



lemma time_step_advance:
  "0 < d \<Longrightarrow> \<forall>(t, k) \<in> set (app_timers a). app_clock a + d \<le> t \<Longrightarrow> time_step a (do_advance d a)"
  unfolding do_advance_def by (rule time_step.advance)

lemma time_step_fire:
  assumes "i < length (app_timers a)" and "fst (app_timers a ! i) \<le> app_clock a"
    and "\<forall>j < i. app_clock a < fst (app_timers a ! j)"
  shows "time_step a (do_fire i a)"
proof -
  obtain t k where tk: "app_timers a ! i = (t, k)" by fastforce
  have split: "app_timers a = take i (app_timers a) @ (t, k) # drop (Suc i) (app_timers a)"
    using assms(1) tk by (metis id_take_nth_drop)
  have "app_clock a < fst x" if "x \<in> set (take i (app_timers a))" for x
  proof -
    from that have "\<exists>j < length (take i (app_timers a)). take i (app_timers a) ! j = x"
      by (simp only: in_set_conv_nth)
    then obtain j where "j < length (take i (app_timers a))" and "take i (app_timers a) ! j = x"
      by blast
    then have "j < i" and "app_timers a ! j = x" by simp_all
    with assms(3) show ?thesis by blast
  qed
  then have "\<forall>(t', k') \<in> set (take i (app_timers a)). app_clock a < t'"
    by fastforce
  then show ?thesis
    using time_step.fire [OF split] assms(2) tk by (simp add: do_fire_def)
qed





subsubsection \<open>Replies\<close>

lemma details_net_ok:
  assumes "json_parse (json_stringify (details_reply (json_stringify d))) = Some (details_reply (json_stringify d))"
    and "json_parse (json_stringify d) = Some d"
  shows "call_gemini_for_details (details_net (json_stringify d)) f =
     (backoff_trace (gemini_request (details_payload f)) 1000 0, Inr (Some d))"
proof -
  have "json_parse [] = None" by code_simp
  then have "json_stringify d \<noteq> []"
    using assms(2) by auto
  then have "attempt details_of_response (details_net (json_stringify d) 0) = Inr d"
    using assms by (simp add: details_net_def attempt_ok details_of_response_text
        details_reply_def candidate_text_def)
  then show ?thesis
    unfolding call_gemini_for_details_def by (intro retry_loop_success) simp_all
qed

lemma details_urgency_ok:
  "call_gemini_for_details urgency_net f =
     (backoff_trace (gemini_request (details_payload f)) 1000 0, Inr (Some urgency_details))"
  unfolding urgency_net_def by (rule details_net_ok) code_simp+

lemma details_offline:
  "call_gemini_for_details offline_net f =
     (backoff_trace (gemini_request (details_payload f)) 1000 2, Inl (TypeError ''Failed to fetch''))"
  unfolding call_gemini_for_details_def
  by (simp add: retry_loop_exhausted [where errs = "\<lambda>_. TypeError ''Failed to fetch''"] offline_net_def)

lemma render_details_strings:
  assumes "d \<noteq> JNull" and "get_prop d ''definition'' = Some (JStr x)" and "get_prop d ''example'' = Some (JStr y)"
    and "get_prop d ''defense_tips'' = Some (JArr (map JStr ts))"
  shows "render_details (Some d) =
    Inr (html_head @ x @ html_mid @ y @ html_tips @ concat (map (\<lambda>t. ''<li>'' @ t @ ''</li>'') ts) @ html_tail)"
  using assms by (simp add: render_details_def render_tips_def to_string_opt_def comp_def)


lemma time_step_hide_free:
  assumes "time_step a b" and "\<forall>(t, k) \<in> set (app_timers a). k \<noteq> HideModal"
  shows "(\<forall>(t, k) \<in> set (app_timers b). k \<noteq> HideModal) \<and> modal_hidden (app_modal b) = modal_hidden (app_modal a)"
  using assms
proof (cases rule: time_step.cases)
  case (fire xs t k ys)
  then have "k = FadeIn" using assms(2) by (cases k) auto
  then show ?thesis using fire assms(2) by auto
qed auto

subsection \<open>Properties\<close>

text \<open>
  C21. In every reachable state of the page, every request for details in flight is for
  one of the factors of the table: the Learn More button is disabled whenever the
  placeholder is selected, so the request that \<open>handleLearnMore\<close> would send even
  when \<open>openModal\<close> returns early on the placeholder is never made.
\<close>

theorem details_requests_are_factors:
  "reachable_app a \<Longrightarrow> set (app_requests a) \<subseteq> factor_name ` set source_data"
  using reachable_app_inv [of a] by (simp add: app_inv_def factor_names_def)

theorem details_requests_are_factors_witness:
  "set (app_requests (do_learn (do_select ''Urgency'' initial_app))) \<subseteq> factor_name ` set source_data"
  by (rule details_requests_are_factors)
    (intro reachable_learn reachable_select reachable_app.init; simp add: do_select_def)



text \<open>
  C24. Only the timer of \<open>closeModal\<close> hides the modal: while no such timer is
  pending, time passing (the clock and every other timer) leaves the modal as visible as
  it was.
\<close>

theorem only_close_timer_hides:
  assumes "time_step\<^sup>*\<^sup>* a b" and "\<forall>(t, k) \<in> set (app_timers a). k \<noteq> HideModal"
  shows "modal_hidden (app_modal b) = modal_hidden (app_modal a)"
proof -
  have "(\<forall>(t, k) \<in> set (app_timers b). k \<noteq> HideModal) \<and> modal_hidden (app_modal b) = modal_hidden (app_modal a)"
    using assms(1)
  proof (induction rule: rtranclp_induct)
    case base
    then show ?case using assms(2) by simp
  next
    case (step b c)
    then show ?case using time_step_hide_free [OF step.hyps(2)] by simp
  qed
  then show ?thesis by simp
qed

theorem only_close_timer_hides_witness:
  "\<not> modal_hidden (app_modal (do_fire 0 (do_advance 10 (do_learn (do_select ''Urgency'' initial_app)))))"
proof -
  let ?a = "do_learn (do_select ''Urgency'' initial_app)"
  have t: "app_timers ?a = [(10, FadeIn)]" "app_clock ?a = 0" "\<not> modal_hidden (app_modal ?a)"
    by (simp_all add: do_learn_def do_select_def open_modal_def schedule_def)
  have "time_step ?a (do_advance 10 ?a)" using t by (intro time_step_advance) simp_all
  moreover have "time_step (do_advance 10 ?a) (do_fire 0 (do_advance 10 ?a))"
    using t by (intro time_step_fire) (simp_all add: do_advance_def)
  ultimately have "time_step\<^sup>*\<^sup>* ?a (do_fire 0 (do_advance 10 ?a))" by simp
  from only_close_timer_hides [OF this] show ?thesis using t by simp
qed

text \<open>
  C25. When \<open>callGeminiForDetails\<close> returns an object whose definition and example are
  strings and whose tips are an array of strings, \<open>handleLearnMore\<close> titles the modal
  with the factor, writes the template with the definition, the example and one
  \<open><li>\<close> per tip inserted verbatim into \<open>innerHTML\<close> (no escaping: markup in the
  service's reply becomes part of the page), shows no error and hides the loader.
\<close>

theorem handle_learn_more_renders:
  assumes "call_gemini_for_details net f = (tr, Inr (Some d))" and "f \<noteq> ''default''"
    and "d \<noteq> JNull" and "get_prop d ''definition'' = Some (JStr x)" and "get_prop d ''example'' = Some (JStr y)"
    and "get_prop d ''defense_tips'' = Some (JArr (map JStr ts))"
  shows "handle_learn_more net f m =
    (m\<lparr>modal_title := f,
       modal_content := html_head @ x @ html_mid @ y @ html_tips
                        @ concat (map (\<lambda>t. ''<li>'' @ t @ ''</li>'') ts) @ html_tail,
       modal_error_shown := False, modal_loader_shown := False, modal_hidden := False\<rparr>, tr)"
  using assms render_details_strings [OF assms(3-6)]
  by (simp add: handle_learn_more_def open_modal_def learn_finish_def)

theorem handle_learn_more_renders_witness:
  "handle_learn_more urgency_net ''Urgency'' initial_modal =
    (initial_modal\<lparr>modal_title := ''Urgency'',
       modal_content := html_head @ ''d'' @ html_mid @ ''e'' @ html_tips
                        @ concat (map (\<lambda>t. ''<li>'' @ t @ ''</li>'') [''t1'', ''t2'']) @ html_tail,
       modal_error_shown := False, modal_loader_shown := False, modal_hidden := False\<rparr>,
     backoff_trace (gemini_request (details_payload ''Urgency'')) 1000 0)"
  by (rule handle_learn_more_renders [OF details_urgency_ok]) (simp_all add: urgency_details_def)

text \<open>
  C26. A structured reply without \<open>defense_tips\<close> is not rejected by a check of the
  required fields: rendering it throws on \<open>details.defense_tips.map\<close>, and the modal
  shows "Failed to generate insights: " and V8's TypeError message, with no content and
  the loader hidden.
\<close>

theorem handle_learn_more_missing_tips:
  assumes "call_gemini_for_details net f = (tr, Inr (Some d))" and "f \<noteq> ''default''"
    and "d \<noteq> JNull" and "get_prop d ''defense_tips'' = None"
  shows "handle_learn_more net f m =
    (m\<lparr>modal_title := f, modal_content := [], modal_error_shown := True,
       modal_error_text := ''Failed to generate insights: Cannot read properties of undefined (reading 'map')'',
       modal_loader_shown := False, modal_hidden := False\<rparr>, tr)"
proof -
  have "member None ''map'' = Inl (TypeError ''Cannot read properties of undefined (reading 'map')'')"
    by (simp add: member_def quoted_def)
  then show ?thesis
    using assms by (simp add: handle_learn_more_def open_modal_def learn_finish_def render_details_def
        render_tips_def show_modal_error_def)
qed

theorem handle_learn_more_missing_tips_witness:
  "handle_learn_more (details_net (json_stringify tipless_details)) ''Urgency'' initial_modal =
    (initial_modal\<lparr>modal_title := ''Urgency'', modal_content := [], modal_error_shown := True,
       modal_error_text := ''Failed to generate insights: Cannot read properties of undefined (reading 'map')'',
       modal_loader_shown := False, modal_hidden := False\<rparr>,
     backoff_trace (gemini_request (details_payload ''Urgency'')) 1000 0)"
proof -
  have "call_gemini_for_details (details_net (json_stringify tipless_details)) ''Urgency'' =
     (backoff_trace (gemini_request (details_payload ''Urgency'')) 1000 0, Inr (Some tipless_details))"
    by (rule details_net_ok) code_simp+
  then show ?thesis
    by (rule handle_learn_more_missing_tips) (simp_all add: tipless_details_def)
qed

text \<open>
  C27. When \<open>callGeminiForDetails\<close> throws, the modal titled with the factor shows
  "Failed to generate insights: " and the error's message, no content, and no loader.
\<close>

theorem handle_learn_more_failure:
  assumes "call_gemini_for_details net f = (tr, Inl e)" and "f \<noteq> ''default''"
  shows "handle_learn_more net f m =
    (m\<lparr>modal_title := f, modal_content := [], modal_error_shown := True,
       modal_error_text := ''Failed to generate insights: '' @ err_message e,
       modal_loader_shown := False, modal_hidden := False\<rparr>, tr)"
  using assms by (simp add: handle_learn_more_def open_modal_def learn_finish_def show_modal_error_def)

theorem handle_learn_more_failure_witness:
  "handle_learn_more offline_net ''Urgency'' initial_modal =
    (initial_modal\<lparr>modal_title := ''Urgency'', modal_content := [], modal_error_shown := True,
       modal_error_text := ''Failed to generate insights: '' @ ''Failed to fetch'',
       modal_loader_shown := False, modal_hidden := False\<rparr>,
     backoff_trace (gemini_request (details_payload ''Urgency'')) 1000 2)"
  using handle_learn_more_failure [OF details_offline, of "''Urgency''" initial_modal] by simp

end
