(* ===== verification/Spec2Isabelle.thy ===== *)
theory Spec2Isabelle
  imports Share Details
begin

text \<open>
  \<^bold>\<open>A verification model of the Psych-Factors-Database page (src/index.js).\<close>

  The program is one browser script with three parts: (A) a static table of social
  engineering factors with their percentages, sorted into a drop-down, and a lookup that
  shows the selected factor's percentage; (B) a live research search that sends the
  user's query to the Gemini generateContent endpoint with Google Search grounding,
  retries transient failures, normalises the reply into a summary and a list of sources,
  renders them and can share them; (C) a "Learn More" modal that asks the same endpoint
  for a structured JSON description of the selected factor. The core of (B) and (C) is
  a retry loop around \<open>fetch\<close>, the normalisation of a nested, partly optional reply,
  and the error paths between them.

  \<^bold>\<open>Theories.\<close>
  \<^item> \<open>Prelude\<close>: decimal digit strings (\<open>string_of_nat\<close> and its inverse),
    \<open>Array.prototype.join\<close> (\<open>join_with\<close>), \<open>String.prototype.split\<close> on one
    character (\<open>js_split\<close>, with the round trip \<open>js_split_join_with\<close>) and a \<open>map\<close>
    whose callback may throw (\<open>map_throw\<close>); the named theorem collections.
  \<^item> \<open>JsValue\<close>: the JavaScript values the code handles (\<open>jsval\<close>, with \<open>undefined\<close>
    as \<open>None\<close>), truthiness, property access with \<open>.\<close> (\<open>member\<close>, a TypeError on
    null and undefined) and \<open>?.\<close> (\<open>opt_member\<close>), \<open>||\<close>, ToString, and the errors a
    \<open>catch\<close> sees. This is the language, not code of the repository.
  \<^item> \<open>Json\<close>: the platform's \<open>JSON.parse\<close> (a lexer and a stack-based token parser)
    and \<open>JSON.stringify\<close>, from RFC 8259; they are the environment of the code,
    through which every request and reply passes.
  \<^item> \<open>Normalizer\<close>: \<open>processApiResponse\<close> (lines 199--226) as
    \<open>process_api_response\<close>, and the extraction of the structured reply in
    \<open>callGeminiForDetails\<close> (lines 507--513) as \<open>details_of_response\<close>.
  \<^item> \<open>Executor\<close>: one pass of the \<open>try\<close> block (\<open>attempt\<close>, lines 169--187 and
    489--513) and the \<open>while (retries > 0)\<close> loop (\<open>retry_loop\<close>, lines 165--195 and
    485--522). The network is an input \<open>net :: nat \<Rightarrow> fetch_result\<close> (the outcome of
    the k-th \<open>fetch\<close>); the loop returns its trace of \<open>Fetch\<close> and \<open>Sleep\<close> events
    and its result, \<open>Inr None\<close> standing for the \<open>undefined\<close> an async function returns
    when it falls off its end.
  \<^item> \<open>Services\<close>: the configuration, the prompts (character for character), the two
    payloads and the functions \<open>callGeminiAPI\<close> (\<open>call_gemini_api\<close>) and
    \<open>callGeminiForDetails\<close> (\<open>call_gemini_for_details\<close>), each the retry loop with
    \<open>retries = 3\<close> and \<open>delay = 1000\<close>.
  \<^item> \<open>SearchUI\<close>: the search panel as a record of what the code writes to the DOM
    (\<open>search_view\<close>), \<open>showLoading\<close>, \<open>showError\<close>, \<open>showResults\<close> and
    \<open>displayResults\<close>, and \<open>handleSearch\<close> split at its \<open>await\<close> into
    \<open>search_start\<close> (lines 109--118) and \<open>search_finish\<close> (lines 124--134). The query is
    trimmed by \<open>js_trim\<close>, \<open>String.prototype.trim\<close> on UTF-8 bytes with the whole
    ECMAScript WhiteSpace and LineTerminator set. Because the click and Enter listeners do
    not wait for a running search, the page is a \<open>page\<close> record (the panel and the
    queries in flight) and \<open>search_step\<close> an inductive step relation: the user edits
    the input, submits (an empty query included), or any pending request settles, in any
    order. \<open>reachable_page\<close> closes it from the initial page.
  \<^item> \<open>Share\<close>: the share button's closure (\<open>click_share\<close>), \<open>shareResults\<close>
    (\<open>share_results\<close>, its outcome a \<open>share_action\<close>: the data handed to
    \<open>navigator.share\<close> or the report copied) and \<open>copyToClipboard\<close>.
    \<open>substring(0, 200)\<close> is \<open>js_take_units\<close>, which counts the UTF-16 code units the
    UTF-8 bytes of the model encode.
  \<^item> \<open>Dataset\<close>: the 22 rows of \<open>sourceData\<close>, the in-place sort of
    \<open>initializeInternalApp\<close> with its \<open>localeCompare\<close> comparator, the drop-down of
    \<open>populateDropdown\<close> and \<open>findPercentage\<close> on a \<open>lookup_view\<close> record.
    \<open>Array.prototype.sort\<close> is a stable insertion sort with the comparator
    (\<open>sort_cmp\<close>); \<open>localeCompare\<close> is a case-insensitive comparison, lower case
    first on ties, which is what the default collation yields on these names.
  \<^item> \<open>Details\<close>: the Learn More modal as a \<open>modal_view\<close> record, \<open>openModal\<close>,
    \<open>closeModal\<close> and \<open>handleLearnMore\<close> (split at its \<open>await\<close> into the opening and
    \<open>learn_finish\<close>), with the HTML template of lines 414--425 character for character.
    The page of parts A and C is an \<open>app\<close> record with a millisecond clock and the
    pending \<open>setTimeout\<close> callbacks; \<open>app_step\<close> is the step relation of its events
    (choosing an option, Learn More, close, a request settling) and \<open>time_step\<close> that of
    time: the clock never passes a pending deadline, and due timers fire in the order they
    were set. The functions \<open>do_select\<close>, \<open>do_learn\<close>, ... write runs down; each is
    shown to be a step.

  \<^bold>\<open>What is proved.\<close> For the executor: at most three calls and never \<open>undefined\<close>
  (C1), the backoff waits 1000 and 2000 ms (C2), success on the third call after two
  rate limits (C3), and that a 403 is retried three times (C4, a divergence from the
  specification, which asks for an immediate failure). For the normaliser: a safety or
  recitation stop always fails (C5), every returned source has a truthy uri and title
  (C6), and the sources are exactly the attributions with both fields, in order, with
  the specification's example as witness (C7). For the structured path: the parsed reply
  on success (C8), a malformed reply retried three times with its SyntaxError rethrown
  (C9), and no blocked check (C10). For the search panel: the "no results" error (C11),
  the invariant that a visible loader means a request in flight, by rule induction over
  \<open>search_step\<close> (C12), and a run of two overlapping searches where the loader is hidden
  while one is still in flight (C13). For the lookup: the sorted drop-down (C14), every
  option shows its percentage (C15), and the placeholder disables Learn More (C16). For
  sharing: the report names the input's value at the click, not the searched query (C17,
  a divergence from the specification), its sources section splits back into one line
  "[Source i+1] title: uri" per source (C18), the Web Share text is at most 209 code
  units (C19), and a non-string summary makes sharing throw (C20). For the modal: every
  details request is for a factor of the table, by rule induction over \<open>app_step\<close>
  (C21); a reply rendered under another factor's title (C22) and a reopened modal hidden
  by an earlier close's timer (C23), both as runs of the page; only the close timer hides
  the modal (C24); the rendered template with the reply's strings unescaped (C25); a
  reply without tips (C26) and a failed call (C27) shown as errors.
  The retry loop needs no fuel: it recurses on the retry counter, so every run ends. The
  step relations are closed under any number of steps; the runs used as witnesses are at
  most ten steps long.

  \<^bold>\<open>Modelling choices.\<close> Numbers from the service are decimal literals
  \<open>m * 10 ^ e\<close>: the code only tests their truthiness and prints them. Strings are
  UTF-8 byte strings. Error messages of the engine (TypeError, SyntaxError) are V8's.
  A request settles at any moment in the step relations: the waits of the retry loop are
  not tied to the clock, which admits more interleavings than the browser, never fewer.
  \<^bold>\<open>Not modelled\<close>: the page's HTML and CSS (the initial visibility of elements is
  taken as hidden, and which controls the modal's overlay covers is left open), CSS
  classes beyond visibility, \<open>console\<close> logging, the browser's share sheet and
  clipboard (the model keeps the value handed to them; \<open>execCommand\<close> is taken to
  succeed), and the generative service itself, which is the input \<open>net\<close>.
\<close>

end
